theory Spec2Isabelle
  imports Main "HOL-Library.AList"
begin

section \<open>Values of the script\<close>

text \<open>
  Cell values, field values and identifiers are strings: the sheet is taken to hold text
  in every cell. A JavaScript value is falsy exactly when it is the empty string (for a
  cell or a field) or zero (for a row number). \<open>a || b\<close> on strings is \<open>or_else a b\<close>.
\<close>

definition truthy :: "string \<Rightarrow> bool" where
  "truthy s \<longleftrightarrow> s \<noteq> []"

definition or_else :: "string \<Rightarrow> string \<Rightarrow> string" where
  "or_else a b = (if truthy a then a else b)"

definition startsWith :: "string \<Rightarrow> string \<Rightarrow> bool" where
  "startsWith s p \<longleftrightarrow> take (length p) s = p"

definition digit_char :: "nat \<Rightarrow> char" where
  "digit_char d = ''0123456789'' ! (d mod 10)"

text \<open>The decimal numeral a template literal prints for a non-negative integer.\<close>

fun string_of_nat :: "nat \<Rightarrow> string" where
  "string_of_nat n =
     (if n < 10 then [digit_char n] else string_of_nat (n div 10) @ [digit_char (n mod 10)])"

declare string_of_nat.simps [simp del]

section \<open>Configuration constants\<close>

definition DATA_START_ROW :: nat where "DATA_START_ROW = 4"
definition HUBDB_ROW_ID_COLUMN :: nat where "HUBDB_ROW_ID_COLUMN = 1"
definition SYNC_STATUS_ID_COLUMN :: nat where "SYNC_STATUS_ID_COLUMN = 9"
definition SYNC_MESSAGE_ID_COLUMN :: nat where "SYNC_MESSAGE_ID_COLUMN = 10"

section \<open>Records, snapshots and changes\<close>

text \<open>The object \<open>data\<close> that \<open>getAllSheetData\<close> builds for one sheet row.\<close>

record game =
  date_and_time :: string
  category :: string
  stage :: string
  player_1 :: string
  player_2 :: string
  results :: string
  venue :: string
  hubdbRowId :: string
  sheetRow :: nat

text \<open>
  The values a property read can give: \<open>undefined\<close>, a record object, a member inherited
  from \<open>Object.prototype\<close> (named; a function, or under \<open>__proto__\<close> the prototype object
  itself), a string, a number.
\<close>

datatype js_value =
  Undefined
  | Rec game
  | Member string
  | Text string
  | Num nat

definition truthy_value :: "js_value \<Rightarrow> bool" where
  "truthy_value v =
     (case v of Undefined \<Rightarrow> False | Rec g \<Rightarrow> True | Member m \<Rightarrow> True
      | Text s \<Rightarrow> truthy s | Num n \<Rightarrow> n \<noteq> 0)"

definition prototype_members :: "string list" where
  "prototype_members =
     [''constructor'', ''__defineGetter__'', ''__defineSetter__'', ''hasOwnProperty'',
      ''__lookupGetter__'', ''__lookupSetter__'', ''isPrototypeOf'', ''propertyIsEnumerable'',
      ''toString'', ''valueOf'', ''__proto__'', ''toLocaleString'']"

text \<open>
  \<open>record[f]\<close> on a record object: its nine own properties, then what it inherits from
  \<open>Object.prototype\<close>.
\<close>

definition record_read :: "game \<Rightarrow> string \<Rightarrow> js_value" where
  "record_read g f =
     (if f = ''date_and_time'' then Text (date_and_time g)
      else if f = ''category'' then Text (category g)
      else if f = ''stage'' then Text (stage g)
      else if f = ''player_1'' then Text (player_1 g)
      else if f = ''player_2'' then Text (player_2 g)
      else if f = ''results'' then Text (results g)
      else if f = ''venue'' then Text (venue g)
      else if f = ''hubdbRowId'' then Text (hubdbRowId g)
      else if f = ''sheetRow'' then Num (sheetRow g)
      else if f \<in> set prototype_members then Member f
      else Undefined)"

text \<open>
  \<open>v[f]\<close> for a truthy value \<open>v\<close> and one of the nine property names of a record: a
  function, the prototype object, a string and a number have no such property.
\<close>

definition js_read :: "js_value \<Rightarrow> string \<Rightarrow> js_value" where
  "js_read v f = (case v of Rec g \<Rightarrow> record_read g f | _ \<Rightarrow> Undefined)"

text \<open>
  A snapshot (\<open>allData\<close>, \<open>storedData\<close>) is a plain JavaScript object from uniqueId to
  record. \<open>own\<close> holds its own properties, an association list in insertion order with
  each key at most once. \<open>proto\<close> is \<open>None\<close> while the prototype is \<open>Object.prototype\<close>, as
  for \<open>{}\<close> and for what \<open>JSON.parse\<close> returns, and \<open>Some d\<close> once the assignment
  \<open>obj["__proto__"] = d\<close> has made the record \<open>d\<close> the prototype.
\<close>

record snapshot =
  own :: "(string \<times> game) list"
  proto :: "game option"

text \<open>
  \<open>obj[k]\<close>: an own property; else, through the prototype chain, a property of the record
  that is the prototype (which \<open>__proto__\<close> itself returns), and a member of
  \<open>Object.prototype\<close>.
\<close>

definition obj_get :: "snapshot \<Rightarrow> string \<Rightarrow> js_value" where
  "obj_get obj k =
     (case map_of (own obj) k of
        Some g \<Rightarrow> Rec g
      | None \<Rightarrow>
         (case proto obj of
            None \<Rightarrow> if k \<in> set prototype_members then Member k else Undefined
          | Some d \<Rightarrow> if k = ''__proto__'' then Rec d else record_read d k))"

text \<open>
  \<open>obj[k] = v\<close> for a record \<open>v\<close>: under \<open>__proto__\<close>, unless that is an own property,
  the setter of \<open>Object.prototype\<close> makes \<open>v\<close> the prototype and no property is added;
  under any other key the own property is overwritten in place or appended.
\<close>

definition obj_set :: "string \<Rightarrow> game \<Rightarrow> snapshot \<Rightarrow> snapshot" where
  "obj_set k v obj =
     (if k = ''__proto__'' \<and> map_of (own obj) k = None then obj\<lparr>proto := Some v\<rparr>
      else obj\<lparr>own := AList.update k v (own obj)\<rparr>)"

definition is_object :: "(string \<times> 'v) list \<Rightarrow> bool" where
  "is_object obj \<longleftrightarrow> distinct (map fst obj)"

text \<open>
  \<open>Object.keys\<close> lists the keys that are array indices (canonical decimal numerals below
  \<open>2^32 - 1\<close>) first, in ascending numeric order, and then all other keys in insertion order.
\<close>

definition is_digit :: "char \<Rightarrow> bool" where
  "is_digit c \<longleftrightarrow> c \<in> set ''0123456789''"

definition digit_value :: "char \<Rightarrow> int" where
  "digit_value c = of_char c - 48"

definition int_of_digits :: "string \<Rightarrow> int" where
  "int_of_digits s = foldl (\<lambda>n c. 10 * n + digit_value c) 0 s"

definition is_array_index :: "string \<Rightarrow> bool" where
  "is_array_index s \<longleftrightarrow>
     s \<noteq> [] \<and> list_all is_digit s \<and> (s = ''0'' \<or> hd s \<noteq> CHR ''0'')
     \<and> int_of_digits s < 2 ^ 32 - 1"

definition object_keys :: "(string \<times> 'v) list \<Rightarrow> string list" where
  "object_keys obj =
     (let ks = map fst obj
      in sort_key int_of_digits (filter is_array_index ks)
         @ filter (\<lambda>k. \<not> is_array_index k) ks)"

datatype change_type = NEW | UPDATED | DELETED

text \<open>
  An entry of \<open>changedFields\<close>: the marker strings \<open>"ALL"\<close> and \<open>"DELETED"\<close>, or the object
  \<open>{field, oldValue, newValue}\<close> of an update.
\<close>

datatype changed_field =
  Marker string
  | FieldChange (field: string) (oldValue: js_value) (newValue: js_value)

text \<open>
  A change object. A property the source does not set is \<open>None\<close> (\<open>row\<close> and \<open>newData\<close>
  of a deletion) or \<open>Undefined\<close> (\<open>oldData\<close> of a new record). \<open>oldData\<close> is whatever
  \<open>storedData[uniqueId]\<close> gave.
\<close>

record change =
  type :: change_type
  uniqueId :: string
  row :: "nat option"
  newData :: "game option"
  oldData :: js_value
  changedFields :: "changed_field list"

section \<open>Record extractor: \<open>getAllSheetData\<close>\<close>

text \<open>
  The sheet is a grid of cells addressed by row and column, both counted from 1.
  \<open>getRange(DATA_START_ROW, 2, n, 11).getValues()\<close> gives, for the row at \<open>index\<close>, the
  cells of columns 2 to 12: \<open>row[j]\<close>, written \<open>rw j\<close>, is the cell in column \<open>j + 2\<close>;
  \<open>hs_id\<close> is the source's local \<open>hubdbRowId\<close>, the cell of column 1.
\<close>

type_synonym grid = "nat \<Rightarrow> nat \<Rightarrow> string"

record clearedRow =
  cleared_sheetRow :: nat
  cleared_hubdbRowId :: string

datatype error =
  RangeError
  | FetchException string
  | SyntaxError
  | HubSpotAPIError nat string

definition isCompletelyEmpty :: "(nat \<Rightarrow> string) \<Rightarrow> string \<Rightarrow> bool" where
  "isCompletelyEmpty rw hs_id \<longleftrightarrow>
     \<not> truthy (rw 0) \<and> \<not> truthy (rw 1) \<and> \<not> truthy (rw 2) \<and> \<not> truthy (rw 3)
     \<and> \<not> truthy (rw 4) \<and> \<not> truthy (rw 5) \<and> \<not> truthy (rw 6) \<and> \<not> truthy (rw 7)
     \<and> \<not> truthy (rw 8) \<and> \<not> truthy (rw 9) \<and> \<not> truthy (rw 10) \<and> \<not> truthy hs_id"

definition isDataClearedButHasId :: "(nat \<Rightarrow> string) \<Rightarrow> string \<Rightarrow> bool" where
  "isDataClearedButHasId rw hs_id \<longleftrightarrow>
     \<not> truthy (rw 0) \<and> \<not> truthy (rw 1) \<and> \<not> truthy (rw 2) \<and> \<not> truthy (rw 3)
     \<and> \<not> truthy (rw 4) \<and> \<not> truthy (rw 5) \<and> \<not> truthy (rw 6) \<and> \<not> truthy (rw 7)
     \<and> \<not> truthy (rw 8) \<and> \<not> truthy (rw 9) \<and> \<not> truthy (rw 10) \<and> truthy hs_id"

text \<open>The body of the \<open>values.forEach\<close> callback, on the accumulated \<open>allData\<close> and \<open>clearedRows\<close>.\<close>

definition extract_row ::
  "grid \<Rightarrow> snapshot \<times> clearedRow list \<Rightarrow> nat \<Rightarrow> snapshot \<times> clearedRow list" where
  "extract_row sheet acc index =
     (let allData = fst acc; clearedRows = snd acc;
          actualRow = DATA_START_ROW + index;
          rw = (\<lambda>j. sheet actualRow (j + 2));
          hs_id = or_else (sheet actualRow 1) ''''
      in if isDataClearedButHasId rw hs_id
         then (allData,
               clearedRows @ [\<lparr>cleared_sheetRow = actualRow, cleared_hubdbRowId = hs_id\<rparr>])
         else if isCompletelyEmpty rw hs_id then acc
         else if \<not> truthy (rw 0) \<and> \<not> truthy (rw 1) \<and> \<not> truthy (rw 2)
                 \<and> \<not> truthy (rw 3) \<and> \<not> truthy (rw 4) then acc
         else
           (let data = \<lparr>date_and_time = or_else (rw 0) '''',
                        category = or_else (rw 1) '''',
                        stage = or_else (rw 2) '''',
                        player_1 = or_else (rw 3) '''',
                        player_2 = or_else (rw 4) '''',
                        results = or_else (rw 5) '''',
                        venue = or_else (rw 6) '''',
                        hubdbRowId = hs_id,
                        sheetRow = actualRow\<rparr>;
                uniqueId = or_else hs_id (''temp_'' @ string_of_nat actualRow)
            in (obj_set uniqueId data allData, clearedRows)))"

text \<open>
  \<open>getRange\<close> throws when the number of rows \<open>lastRow - DATA_START_ROW + 1\<close> is below 1.
\<close>

definition getAllSheetData :: "grid \<Rightarrow> nat \<Rightarrow> error + snapshot \<times> clearedRow list" where
  "getAllSheetData sheet lastRow =
     (if lastRow < DATA_START_ROW then Inl RangeError
      else Inr (foldl (extract_row sheet) (\<lparr>own = [], proto = None\<rparr>, [])
                  [0 ..< lastRow - DATA_START_ROW + 1]))"

section \<open>Change detector: \<open>detectChanges\<close>\<close>

definition fieldsToCheck :: "string list" where
  "fieldsToCheck =
     [''date_and_time'', ''category'', ''stage'', ''player_1'', ''player_2'', ''results'',
      ''venue'']"

text \<open>
  The inner \<open>fieldsToCheck.forEach\<close>, pushing onto \<open>changedFields\<close>; \<open>!==\<close> on the values
  read is inequality.
\<close>

definition check_field ::
  "js_value \<Rightarrow> js_value \<Rightarrow> changed_field list \<Rightarrow> string \<Rightarrow> changed_field list" where
  "check_field current stored changedFieldsAcc f =
     (if js_read current f \<noteq> js_read stored f
      then changedFieldsAcc @ [FieldChange f (js_read stored f) (js_read current f)]
      else changedFieldsAcc)"

text \<open>
  The first loop, over \<open>Object.keys(currentData)\<close>. \<open>current\<close> is an own property, so a
  record.
\<close>

definition detect_current :: "snapshot \<Rightarrow> snapshot \<Rightarrow> change list \<Rightarrow> string \<Rightarrow> change list" where
  "detect_current currentData storedData changes k =
     (case obj_get currentData k of
        Rec current \<Rightarrow>
         (let stored = obj_get storedData k
          in if \<not> truthy_value stored
             then (if truthy (hubdbRowId current) \<or> startsWith k ''temp_''
                   then changes @ [\<lparr>type = NEW, uniqueId = k, row = Some (sheetRow current),
                                    newData = Some current, oldData = Undefined,
                                    changedFields = [Marker ''ALL'']\<rparr>]
                   else changes)
             else
              (let changedFieldsAcc = foldl (check_field (Rec current) stored) [] fieldsToCheck
               in if length changedFieldsAcc > 0
                  then changes @ [\<lparr>type = UPDATED, uniqueId = k, row = Some (sheetRow current),
                                   newData = Some current, oldData = stored,
                                   changedFields = changedFieldsAcc\<rparr>]
                  else changes))
      | _ \<Rightarrow> changes)"

text \<open>
  The second loop, over \<open>Object.keys(storedData)\<close>. \<open>storedRow\<close> is an own property, so a
  record.
\<close>

definition detect_stored :: "snapshot \<Rightarrow> snapshot \<Rightarrow> change list \<Rightarrow> string \<Rightarrow> change list" where
  "detect_stored currentData storedData changes k =
     (if \<not> truthy_value (obj_get currentData k)
      then (case obj_get storedData k of
              Rec storedRow \<Rightarrow>
                if truthy (hubdbRowId storedRow)
                then changes @ [\<lparr>type = DELETED, uniqueId = k, row = None,
                                 newData = None, oldData = Rec storedRow,
                                 changedFields = [Marker ''DELETED'']\<rparr>]
                else changes
            | _ \<Rightarrow> changes)
      else changes)"

definition detectChanges :: "snapshot \<Rightarrow> snapshot \<Rightarrow> change list" where
  "detectChanges currentData storedData =
     foldl (detect_stored currentData storedData)
       (foldl (detect_current currentData storedData) [] (object_keys (own currentData)))
       (object_keys (own storedData))"

section \<open>Identity provisioner: \<open>findRowsNeedingHubDBCreation\<close>\<close>

record rowInfo =
  info_uniqueId :: string
  info_data :: game
  info_sheetRow :: nat

text \<open>\<open>Set.add\<close>: a set keeps its elements once, in insertion order.\<close>

definition set_add :: "string list \<Rightarrow> string \<Rightarrow> string list" where
  "set_add s x = (if x \<in> set s then s else s @ [x])"

definition add_changed :: "string list \<Rightarrow> change \<Rightarrow> string list" where
  "add_changed s c =
     (if type c = NEW \<or> type c = UPDATED then set_add s (uniqueId c) else s)"

text \<open>
  The body of \<open>changedUniqueIds.forEach\<close>. What \<open>allData[uniqueId]\<close> gives is skipped when
  falsy; when it is not a record it has none of the required properties.
\<close>

definition check_creation :: "snapshot \<Rightarrow> rowInfo list \<Rightarrow> string \<Rightarrow> rowInfo list" where
  "check_creation allData rowsNeedingCreation k =
     (case obj_get allData k of
        Rec data \<Rightarrow>
         (let hasRequiredData =
                (truthy (date_and_time data) \<and> truthy (player_1 data) \<and> truthy (player_2 data));
              missingHubDBRowId = (\<not> truthy (hubdbRowId data))
          in if hasRequiredData \<and> missingHubDBRowId
             then rowsNeedingCreation
                  @ [\<lparr>info_uniqueId = k, info_data = data, info_sheetRow = sheetRow data\<rparr>]
             else rowsNeedingCreation)
      | _ \<Rightarrow> rowsNeedingCreation)"

definition findRowsNeedingHubDBCreation :: "snapshot \<Rightarrow> change list \<Rightarrow> rowInfo list" where
  "findRowsNeedingHubDBCreation allData changes =
     (let changedUniqueIds =
            (if length changes > 0 then foldl add_changed [] changes
             else foldl set_add [] (object_keys (own allData)))
      in foldl (check_creation allData) [] changedUniqueIds)"

section \<open>The sheet, the script properties and the remote endpoint\<close>

text \<open>
  The data a response body yields after \<open>JSON.parse\<close>, as far as the script reads it:
  \<open>success\<close>, \<open>hubdbRowId\<close>, \<open>message\<close> (the empty string when absent) and \<open>results\<close>
  (\<open>None\<close> when absent), each result an object \<open>{hubdbId, status}\<close>.
\<close>

record response_data =
  success :: bool
  resp_hubdbRowId :: string
  message :: string
  batch_results :: "(string \<times> string) list option"

text \<open>
  \<open>UrlFetchApp.fetch\<close> either throws (with the exception's message) or returns a response:
  its code, its text, and what \<open>JSON.parse\<close> makes of the text, \<open>Inl\<close> with the message
  when parsing throws. A text that parses is taken to give an object.
\<close>

datatype fetch_result =
  Throws string
  | Response nat string "string + response_data"

text \<open>
  One entry of \<open>gameData\<close> in the combined request, before it is serialised:
  \<open>JSON.stringify\<close> leaves out a property that is \<open>undefined\<close> or a function.
\<close>

datatype game_op =
  GameOp (operation: change_type) (op_uniqueId: string) (op_data: "game option")
    (op_oldData: js_value) (op_changedFields: "changed_field list")
    (op_sheetRow: "nat option")

text \<open>
  The request bodies, without their timestamps: the creation of a row (uniqueId, data,
  \<open>metadata.sheetRow\<close>), a batch delete (identities, \<open>metadata.reason\<close>, the count in the
  metadata), a single delete (identity, sheetRow) and the combined request.
\<close>

datatype request =
  CREATE_HUBDB_ROW string "(string \<times> string) list" nat
  | BATCH_DELETE_HUBDB_ROWS "string list" string nat
  | DELETE_HUBDB_ROW string nat
  | GameData "game_op list"

text \<open>
  The endpoint answers a request given everything sent to it so far, the request itself
  last. The world of a cycle is the cells of the target sheet, the script property
  \<open>GAME_DATA\<close> and the requests sent. \<open>GAME_DATA\<close> is \<open>None\<close> before the first
  \<open>storeData\<close> and then holds the own properties of the snapshot stored, which is what
  \<open>JSON.stringify\<close> writes; \<open>JSON.parse\<close> gives them back as a plain object.
\<close>

type_synonym remote = "request list \<Rightarrow> fetch_result"

record world =
  cells :: grid
  GAME_DATA :: "(string \<times> game) list option"
  sent :: "request list"

definition fetch :: "remote \<Rightarrow> request \<Rightarrow> world \<Rightarrow> fetch_result \<times> world" where
  "fetch endpoint req w = (endpoint (sent w @ [req]), w\<lparr>sent := sent w @ [req]\<rparr>)"

text \<open>\<open>sheet.getRange(r, c).setValue(v)\<close>; every call site passes a row that is not zero.\<close>

definition setValue :: "nat \<Rightarrow> nat \<Rightarrow> string \<Rightarrow> world \<Rightarrow> world" where
  "setValue r c v w = w\<lparr>cells := (cells w)(r := (cells w r)(c := v))\<rparr>"

definition getStoredData :: "world \<Rightarrow> snapshot" where
  "getStoredData w =
     (case GAME_DATA w of
        None \<Rightarrow> \<lparr>own = [], proto = None\<rparr>
      | Some stored \<Rightarrow> \<lparr>own = stored, proto = None\<rparr>)"

definition storeData :: "snapshot \<Rightarrow> world \<Rightarrow> world" where
  "storeData d w = w\<lparr>GAME_DATA := Some (own d)\<rparr>"

definition is_2xx :: "nat \<Rightarrow> bool" where
  "is_2xx responseCode \<longleftrightarrow> responseCode \<ge> 200 \<and> responseCode < 300"

definition http_message :: "nat \<Rightarrow> string \<Rightarrow> string" where
  "http_message responseCode responseText =
     ''HTTP '' @ string_of_nat responseCode @ '': '' @ responseText"

section \<open>Status recorder\<close>

definition clearSyncStatusForRows :: "nat list \<Rightarrow> world \<Rightarrow> world" where
  "clearSyncStatusForRows rowNumbers w =
     foldl (\<lambda>w rowNumber.
              setValue rowNumber SYNC_MESSAGE_ID_COLUMN []
                (setValue rowNumber SYNC_STATUS_ID_COLUMN [] w))
       w rowNumbers"

definition updateRowAfterSuccessfulDelete :: "nat \<Rightarrow> world \<Rightarrow> world" where
  "updateRowAfterSuccessfulDelete r w =
     setValue r SYNC_MESSAGE_ID_COLUMN ''Successfully deleted from HubDB''
       (setValue r SYNC_STATUS_ID_COLUMN ''deleted''
         (setValue r HUBDB_ROW_ID_COLUMN [] w))"

definition updateRowWithError :: "nat \<Rightarrow> string \<Rightarrow> world \<Rightarrow> world" where
  "updateRowWithError r errorMessage w =
     setValue r SYNC_MESSAGE_ID_COLUMN errorMessage
       (setValue r SYNC_STATUS_ID_COLUMN ''error'' w)"

text \<open>
  A row number that may be \<open>undefined\<close> or \<open>null\<close> is a \<open>nat option\<close>; it is truthy when
  it is a number other than zero. \<open>change.oldData?.sheetRow\<close> is \<open>old_sheetRow\<close>, and
  \<open>change.row || change.oldData?.sheetRow\<close> is \<open>targetRow\<close>.
\<close>

definition truthy_row :: "nat option \<Rightarrow> bool" where
  "truthy_row r = (case r of None \<Rightarrow> False | Some n \<Rightarrow> n \<noteq> 0)"

definition old_sheetRow :: "change \<Rightarrow> nat option" where
  "old_sheetRow c = (case oldData c of Rec d \<Rightarrow> Some (sheetRow d) | _ \<Rightarrow> None)"

text \<open>
  \<open>change.oldData.hubdbRowId\<close>, read only where \<open>change.oldData?.sheetRow\<close> is truthy, so
  where \<open>oldData\<close> is a record.
\<close>

definition old_hubdbRowId :: "change \<Rightarrow> string" where
  "old_hubdbRowId c = (case oldData c of Rec d \<Rightarrow> hubdbRowId d | _ \<Rightarrow> [])"

definition targetRow :: "change \<Rightarrow> nat option" where
  "targetRow c = (if truthy_row (row c) then row c else old_sheetRow c)"

definition updateSyncStatusForChanges :: "change list \<Rightarrow> string \<Rightarrow> world \<Rightarrow> world" where
  "updateSyncStatusForChanges changes status w =
     foldl (\<lambda>w c. if truthy_row (targetRow c)
                   then setValue (the (targetRow c)) SYNC_STATUS_ID_COLUMN status w
                   else w)
       w changes"

definition type_name :: "change_type \<Rightarrow> string" where
  "type_name t = (case t of NEW \<Rightarrow> ''NEW'' | UPDATED \<Rightarrow> ''UPDATED'' | DELETED \<Rightarrow> ''DELETED'')"

definition updateRowsAfterSuccess :: "change list \<Rightarrow> world \<Rightarrow> world" where
  "updateRowsAfterSuccess changes w =
     foldl (\<lambda>w c.
              if type c = DELETED \<and> truthy_row (old_sheetRow c)
              then updateRowAfterSuccessfulDelete (the (old_sheetRow c)) w
              else if truthy_row (row c)
              then setValue (the (row c)) SYNC_MESSAGE_ID_COLUMN
                     (type_name (type c) @ '' operation completed successfully'')
                     (setValue (the (row c)) SYNC_STATUS_ID_COLUMN ''sync success'' w)
              else w)
       w changes"

definition updateRowsAfterFailure :: "change list \<Rightarrow> nat \<Rightarrow> string \<Rightarrow> world \<Rightarrow> world" where
  "updateRowsAfterFailure changes responseCode responseText w =
     foldl (\<lambda>w c. if truthy_row (targetRow c)
                   then updateRowWithError (the (targetRow c))
                          (http_message responseCode responseText) w
                   else w)
       w changes"

section \<open>Cleared rows: \<open>handleClearedRows\<close>\<close>

text \<open>The \<open>catch\<close> block of \<open>handleSingleClearedRow\<close> and the outcome of its \<open>try\<close> block.\<close>

definition handleSingleClearedRow :: "remote \<Rightarrow> clearedRow \<Rightarrow> world \<Rightarrow> world" where
  "handleSingleClearedRow endpoint clearedRow w =
     (let r = cleared_sheetRow clearedRow;
          w1 = setValue r SYNC_STATUS_ID_COLUMN ''syncing'' w;
          (res, w2) = fetch endpoint (DELETE_HUBDB_ROW (cleared_hubdbRowId clearedRow) r) w1
      in case res of
           Throws msg \<Rightarrow> updateRowWithError r (''Exception: '' @ msg) w2
         | Response responseCode responseText parsed \<Rightarrow>
             if is_2xx responseCode
             then (case parsed of
                     Inl msg \<Rightarrow> updateRowWithError r (''Exception: '' @ msg) w2
                   | Inr responseData \<Rightarrow>
                       if success responseData
                       then updateRowAfterSuccessfulDelete r w2
                       else updateRowWithError r
                              (''Deletion failed: ''
                                 @ or_else (message responseData) ''Unknown error'') w2)
             else updateRowWithError r (http_message responseCode responseText) w2)"

text \<open>
  \<open>responseData.results?.filter((r) => r.status === "success") || []\<close>, and whether one
  of them names the identity.
\<close>

definition successfulDeletions :: "response_data \<Rightarrow> (string \<times> string) list" where
  "successfulDeletions responseData =
     (case batch_results responseData of
        None \<Rightarrow> []
      | Some rs \<Rightarrow> filter (\<lambda>r. snd r = ''success'') rs)"

definition wasDeleted :: "response_data \<Rightarrow> string \<Rightarrow> bool" where
  "wasDeleted responseData ident \<longleftrightarrow>
     (\<exists>result \<in> set (successfulDeletions responseData). fst result = ident)"

text \<open>Marking every cleared row with an error and then deleting each one singly.\<close>

definition cleared_fallback :: "remote \<Rightarrow> clearedRow list \<Rightarrow> string \<Rightarrow> world \<Rightarrow> world" where
  "cleared_fallback endpoint clearedRows errorMessage w =
     foldl (\<lambda>w clearedRow. handleSingleClearedRow endpoint clearedRow w)
       (foldl (\<lambda>w clearedRow. updateRowWithError (cleared_sheetRow clearedRow) errorMessage w)
          w clearedRows)
       clearedRows"

definition handleBatchClearedRows :: "remote \<Rightarrow> clearedRow list \<Rightarrow> world \<Rightarrow> world" where
  "handleBatchClearedRows endpoint clearedRows w =
     (let hubdbRowIds = filter truthy (map cleared_hubdbRowId clearedRows)
      in if length hubdbRowIds = 0 then w
         else
          (let w1 = foldl (\<lambda>w clearedRow.
                             setValue (cleared_sheetRow clearedRow) SYNC_STATUS_ID_COLUMN
                               ''syncing'' w)
                      w clearedRows;
               (res, w2) = fetch endpoint
                             (BATCH_DELETE_HUBDB_ROWS hubdbRowIds ''rows_cleared''
                                (length clearedRows)) w1
           in case res of
                Throws msg \<Rightarrow> cleared_fallback endpoint clearedRows (''Exception: '' @ msg) w2
              | Response responseCode responseText parsed \<Rightarrow>
                  if is_2xx responseCode
                  then (case parsed of
                          Inl msg \<Rightarrow>
                            cleared_fallback endpoint clearedRows (''Exception: '' @ msg) w2
                        | Inr responseData \<Rightarrow>
                            if success responseData
                            then foldl (\<lambda>w clearedRow.
                                          if wasDeleted responseData
                                               (cleared_hubdbRowId clearedRow)
                                          then updateRowAfterSuccessfulDelete
                                                 (cleared_sheetRow clearedRow) w
                                          else updateRowWithError (cleared_sheetRow clearedRow)
                                                 ''Batch deletion failed'' w)
                                   w2 clearedRows
                            else cleared_fallback endpoint clearedRows
                                   (''Batch deletion failed: ''
                                      @ or_else (message responseData) ''Unknown error'') w2)
                  else cleared_fallback endpoint clearedRows
                         (http_message responseCode responseText) w2))"

definition handleClearedRows :: "remote \<Rightarrow> clearedRow list \<Rightarrow> world \<Rightarrow> world" where
  "handleClearedRows endpoint clearedRows w =
     (if length clearedRows = 0 then w
      else
       (let w1 = clearSyncStatusForRows (map cleared_sheetRow clearedRows) w
        in if length clearedRows > 1 then handleBatchClearedRows endpoint clearedRows w1
           else handleSingleClearedRow endpoint (hd clearedRows) w1))"

section \<open>Identity provisioner: \<open>createHubDBRows\<close>\<close>

text \<open>
  The \<open>data\<close> object of a creation request. Its \<open>round\<close> is read from a property the
  record does not have, so the serialised body has no \<open>round\<close>.
\<close>

definition creation_data :: "game \<Rightarrow> (string \<times> string) list" where
  "creation_data d =
     [(''date_and_time'', date_and_time d), (''venue'', venue d), (''category'', category d),
      (''stage'', stage d), (''player_1'', player_1 d), (''player_2'', player_2 d),
      (''results'', results d)]"

text \<open>
  The body of the \<open>for\<close> loop. The error thrown on a response that is not 2xx is caught
  by the loop's own \<open>catch\<close>, which overwrites the message.
\<close>

definition createHubDBRow :: "remote \<Rightarrow> world \<Rightarrow> rowInfo \<Rightarrow> world" where
  "createHubDBRow endpoint w rowInfo =
     (let r = info_sheetRow rowInfo;
          w1 = setValue r SYNC_STATUS_ID_COLUMN ''syncing'' w;
          (res, w2) = fetch endpoint
                        (CREATE_HUBDB_ROW (info_uniqueId rowInfo)
                           (creation_data (info_data rowInfo)) r) w1
      in case res of
           Throws msg \<Rightarrow> updateRowWithError r (''Exception: '' @ msg) w2
         | Response responseCode responseText parsed \<Rightarrow>
             if is_2xx responseCode
             then (case parsed of
                     Inl msg \<Rightarrow> updateRowWithError r (''Exception: '' @ msg) w2
                   | Inr responseData \<Rightarrow>
                       if success responseData \<and> truthy (resp_hubdbRowId responseData)
                       then setValue r SYNC_MESSAGE_ID_COLUMN ''HubDB row created successfully''
                              (setValue r SYNC_STATUS_ID_COLUMN ''sync success''
                                 (setValue r HUBDB_ROW_ID_COLUMN
                                    (resp_hubdbRowId responseData) w2))
                       else updateRowWithError r
                              (''Creation failed: ''
                                 @ or_else (message responseData) ''Unknown error'') w2)
             else updateRowWithError r
                    (''Exception: HubDB creation failed: '' @ string_of_nat responseCode
                       @ '' - '' @ responseText)
                    (updateRowWithError r (http_message responseCode responseText) w2))"

definition createHubDBRows :: "remote \<Rightarrow> rowInfo list \<Rightarrow> world \<Rightarrow> world" where
  "createHubDBRows endpoint rowsNeedingCreation w =
     foldl (createHubDBRow endpoint)
       (clearSyncStatusForRows (map info_sheetRow rowsNeedingCreation) w)
       rowsNeedingCreation"

section \<open>Reconciliation dispatcher: \<open>sendToHubSpot\<close>\<close>

text \<open>\<open>deleteChanges.map((change) => change.oldData?.hubdbRowId).filter((id) => id)\<close>.\<close>

definition delete_ids :: "change list \<Rightarrow> string list" where
  "delete_ids deleteChanges =
     filter truthy (map (\<lambda>c. case oldData c of Rec d \<Rightarrow> hubdbRowId d | _ \<Rightarrow> [])
                      deleteChanges)"

text \<open>The \<open>forEach\<close> shared by the three handlers that mark every delete target with an error.\<close>

definition mark_deletes_error :: "change list \<Rightarrow> string \<Rightarrow> world \<Rightarrow> world" where
  "mark_deletes_error deleteChanges errorMessage w =
     foldl (\<lambda>w c. if truthy_row (old_sheetRow c)
                   then updateRowWithError (the (old_sheetRow c)) errorMessage w
                   else w)
       w deleteChanges"

text \<open>
  \<open>handleBatchDeleteSuccess\<close> after \<open>JSON.parse\<close> has returned. It has no access to
  \<open>otherChanges\<close>.
\<close>

definition handleBatchDeleteSuccess :: "change list \<Rightarrow> response_data \<Rightarrow> world \<Rightarrow> world" where
  "handleBatchDeleteSuccess deleteChanges batchResponseData w =
     (if success batchResponseData
      then foldl (\<lambda>w c.
                    if \<not> truthy_row (old_sheetRow c) then w
                    else if wasDeleted batchResponseData (old_hubdbRowId c)
                    then updateRowAfterSuccessfulDelete (the (old_sheetRow c)) w
                    else updateRowWithError (the (old_sheetRow c)) ''Batch deletion failed'' w)
             w deleteChanges
      else mark_deletes_error deleteChanges
             (''Batch deletion failed: ''
                @ or_else (message batchResponseData) ''Unknown error'') w)"

definition handleBatchDeleteFailure ::
  "change list \<Rightarrow> nat \<Rightarrow> string \<Rightarrow> change list \<Rightarrow> world \<Rightarrow> change list \<times> world" where
  "handleBatchDeleteFailure deleteChanges responseCode responseText otherChanges w =
     (otherChanges @ deleteChanges,
      mark_deletes_error deleteChanges (http_message responseCode responseText) w)"

definition handleBatchDeleteError ::
  "change list \<Rightarrow> string \<Rightarrow> change list \<Rightarrow> world \<Rightarrow> change list \<times> world" where
  "handleBatchDeleteError deleteChanges batchError otherChanges w =
     (otherChanges @ deleteChanges,
      mark_deletes_error deleteChanges (''Exception: '' @ batchError) w)"

text \<open>
  \<open>processBatchDeletes\<close> returns \<open>otherChanges\<close> as the handlers have left it, since they
  push onto the caller's array.
\<close>

definition processBatchDeletes ::
  "remote \<Rightarrow> change list \<Rightarrow> change list \<Rightarrow> world \<Rightarrow> change list \<times> world" where
  "processBatchDeletes endpoint deleteChanges otherChanges w =
     (let w1 = updateSyncStatusForChanges deleteChanges ''syncing'' w;
          (res, w2) = fetch endpoint
                        (BATCH_DELETE_HUBDB_ROWS (delete_ids deleteChanges) ''data_changes''
                           (length deleteChanges)) w1
      in case res of
           Throws msg \<Rightarrow> handleBatchDeleteError deleteChanges msg otherChanges w2
         | Response responseCode responseText parsed \<Rightarrow>
             if is_2xx responseCode
             then (case parsed of
                     Inl msg \<Rightarrow> handleBatchDeleteError deleteChanges msg otherChanges w2
                   | Inr batchResponseData \<Rightarrow>
                       (otherChanges,
                        handleBatchDeleteSuccess deleteChanges batchResponseData w2))
             else handleBatchDeleteFailure deleteChanges responseCode responseText
                    otherChanges w2)"

definition individual_op :: "change \<Rightarrow> game_op" where
  "individual_op c =
     GameOp (type c) (uniqueId c) (newData c) (oldData c) (changedFields c)
       (if truthy_row (row c) then row c
        else if truthy_row (old_sheetRow c) then old_sheetRow c else None)"

text \<open>
  \<open>processIndividualOperations\<close> has no \<open>try\<close>: an exception of \<open>fetch\<close> or of the final
  \<open>JSON.parse\<close> leaves it, as does the error it throws on a response that is not 2xx.
  The parsed body it returns is not used by \<open>syncAllData\<close>.
\<close>

definition processIndividualOperations ::
  "remote \<Rightarrow> change list \<Rightarrow> world \<Rightarrow> (error + unit) \<times> world" where
  "processIndividualOperations endpoint otherChanges w =
     (let w1 = updateSyncStatusForChanges otherChanges ''syncing'' w;
          (res, w2) = fetch endpoint (GameData (map individual_op otherChanges)) w1
      in case res of
           Throws msg \<Rightarrow> (Inl (FetchException msg), w2)
         | Response responseCode responseText parsed \<Rightarrow>
             if is_2xx responseCode
             then (let w3 = updateRowsAfterSuccess otherChanges w2
                   in case parsed of
                        Inl msg \<Rightarrow> (Inl SyntaxError, w3)
                      | Inr responseData \<Rightarrow> (Inr (), w3))
             else (Inl (HubSpotAPIError responseCode responseText),
                   updateRowsAfterFailure otherChanges responseCode responseText w2))"

definition sendToHubSpot :: "remote \<Rightarrow> change list \<Rightarrow> world \<Rightarrow> (error + unit) \<times> world" where
  "sendToHubSpot endpoint changes w =
     (let rowsToProcess = map (\<lambda>c. the (row c)) (filter (\<lambda>c. truthy_row (row c)) changes);
          w1 = (if length rowsToProcess > 0 then clearSyncStatusForRows rowsToProcess w else w);
          deleteChanges = filter (\<lambda>c. type c = DELETED) changes;
          otherChanges = filter (\<lambda>c. type c \<noteq> DELETED) changes;
          (otherChanges', w2) =
             (if length deleteChanges > 1
              then processBatchDeletes endpoint deleteChanges otherChanges w1
              else if length deleteChanges = 1 then (otherChanges @ deleteChanges, w1)
              else (otherChanges, w1))
      in if length otherChanges' > 0
         then processIndividualOperations endpoint otherChanges' w2
         else (Inr (), w2))"

section \<open>The cycle: \<open>syncAllData\<close>\<close>

definition hasHubDBId :: "change \<Rightarrow> bool" where
  "hasHubDBId c \<longleftrightarrow>
     (type c = DELETED \<and> (case oldData c of Rec d \<Rightarrow> truthy (hubdbRowId d) | _ \<Rightarrow> False))
     \<or> (type c \<noteq> DELETED \<and> (case newData c of None \<Rightarrow> False | Some d \<Rightarrow> truthy (hubdbRowId d)))"

text \<open>
  The part of \<open>syncAllData\<close> from \<open>if (changes.length > 0)\<close> on. An exception of
  \<open>sendToHubSpot\<close> is caught by the \<open>catch\<close> of \<open>syncAllData\<close>, which only logs it.
\<close>

definition dispatch_changes ::
  "remote \<Rightarrow> snapshot \<Rightarrow> change list \<Rightarrow> rowInfo list \<Rightarrow> world \<Rightarrow> world" where
  "dispatch_changes endpoint allData changes rowsNeedingHubDBCreation w =
     (if length changes > 0
      then
       (let changesWithHubDBId = filter hasHubDBId changes;
            (res, w1) = (if length changesWithHubDBId > 0
                         then sendToHubSpot endpoint changesWithHubDBId w
                         else (Inr (), w))
        in case res of
             Inl e \<Rightarrow> w1
           | Inr u \<Rightarrow> if length rowsNeedingHubDBCreation = 0 then storeData allData w1 else w1)
      else w)"

text \<open>
  \<open>lastRow\<close> is what \<open>sheet.getLastRow()\<close> returns at the start of the cycle.
  \<open>clearAllSyncStatus\<close> only logs.
\<close>

definition syncAllData :: "remote \<Rightarrow> nat \<Rightarrow> world \<Rightarrow> world" where
  "syncAllData endpoint lastRow w =
     (case getAllSheetData (cells w) lastRow of
        Inl e \<Rightarrow> w
      | Inr (allData, clearedRows) \<Rightarrow>
         (let w1 = (if length clearedRows > 0 then handleClearedRows endpoint clearedRows w
                    else w);
              storedData = getStoredData w1;
              changes = detectChanges allData storedData;
              rowsNeedingHubDBCreation = findRowsNeedingHubDBCreation allData changes
          in if length rowsNeedingHubDBCreation > 0
             then
              (let w2 = createHubDBRows endpoint rowsNeedingHubDBCreation w1
               in case getAllSheetData (cells w2) lastRow of
                    Inl e \<Rightarrow> w2
                  | Inr (updatedData, clearedRows') \<Rightarrow>
                      dispatch_changes endpoint allData changes rowsNeedingHubDBCreation
                        (storeData updatedData w2))
             else dispatch_changes endpoint allData changes rowsNeedingHubDBCreation w1))"

section \<open>Notions used in the statements\<close>

text \<open>
  The three outcomes of \<open>extract_row\<close> for the sheet row \<open>r\<close>: the row is queued as cleared
  (\<open>row_cleared\<close>), or it is kept (\<open>row_kept\<close>) and stored as \<open>row_record\<close> under
  \<open>row_key\<close>, or it is skipped. \<open>cleared_entry\<close> is what the row at an index adds to
  \<open>clearedRows\<close>.
\<close>

definition row_cleared :: "grid \<Rightarrow> nat \<Rightarrow> bool" where
  "row_cleared sheet r \<longleftrightarrow>
     isDataClearedButHasId (\<lambda>j. sheet r (j + 2)) (or_else (sheet r 1) [])"

definition row_kept :: "grid \<Rightarrow> nat \<Rightarrow> bool" where
  "row_kept sheet r \<longleftrightarrow>
     (let rw = (\<lambda>j. sheet r (j + 2))
      in \<not> row_cleared sheet r
         \<and> \<not> isCompletelyEmpty rw (or_else (sheet r 1) [])
         \<and> \<not> (\<not> truthy (rw 0) \<and> \<not> truthy (rw 1) \<and> \<not> truthy (rw 2)
               \<and> \<not> truthy (rw 3) \<and> \<not> truthy (rw 4)))"

definition row_record :: "grid \<Rightarrow> nat \<Rightarrow> game" where
  "row_record sheet r =
     (let rw = (\<lambda>j. sheet r (j + 2))
      in \<lparr>date_and_time = or_else (rw 0) [], category = or_else (rw 1) [],
          stage = or_else (rw 2) [], player_1 = or_else (rw 3) [],
          player_2 = or_else (rw 4) [], results = or_else (rw 5) [],
          venue = or_else (rw 6) [], hubdbRowId = or_else (sheet r 1) [],
          sheetRow = r\<rparr>)"

definition row_key :: "grid \<Rightarrow> nat \<Rightarrow> string" where
  "row_key sheet r = or_else (or_else (sheet r 1) []) (''temp_'' @ string_of_nat r)"

definition cleared_entry :: "grid \<Rightarrow> nat \<Rightarrow> clearedRow list" where
  "cleared_entry sheet i =
     (let r = DATA_START_ROW + i
      in if row_cleared sheet r
         then [\<lparr>cleared_sheetRow = r, cleared_hubdbRowId = or_else (sheet r 1) []\<rparr>]
         else [])"

text \<open>
  A record qualifies for creation when it has no remote identity and has its date and
  time and both players. The uniqueIds considered are those of the NEW and UPDATED
  changes, or every key of the snapshot when there is no change at all.
\<close>

definition needs_creation :: "game \<Rightarrow> bool" where
  "needs_creation data \<longleftrightarrow>
     \<not> truthy (hubdbRowId data) \<and> truthy (date_and_time data)
     \<and> truthy (player_1 data) \<and> truthy (player_2 data)"

definition creation_targets :: "snapshot \<Rightarrow> change list \<Rightarrow> string set" where
  "creation_targets allData changes =
     (if changes \<noteq> []
      then {uniqueId c | c. c \<in> set changes \<and> (type c = NEW \<or> type c = UPDATED)}
      else fst ` set (own allData))"

text \<open>
  A request fails when \<open>fetch\<close> throws or the response is not 2xx. \<open>combined_sent\<close> lists
  the combined individual-operations requests among the requests sent.
\<close>

definition request_fails :: "fetch_result \<Rightarrow> bool" where
  "request_fails res =
     (case res of Throws msg \<Rightarrow> True | Response responseCode responseText parsed \<Rightarrow> \<not> is_2xx responseCode)"

definition is_combined :: "request \<Rightarrow> bool" where
  "is_combined req = (case req of GameData ops \<Rightarrow> True | _ \<Rightarrow> False)"

definition combined_sent :: "world \<Rightarrow> request list" where
  "combined_sent w = filter is_combined (sent w)"

section \<open>Example inputs\<close>

text \<open>
  Records, sheets, worlds and endpoints on which the theorems below are instantiated.
  \<open>plain props\<close> is the object with the own properties \<open>props\<close> and \<open>Object.prototype\<close>
  as its prototype. Row 4 is the first data row. \<open>failing_endpoint\<close> creates every row
  asked for, under the identity 200, and answers a combined request with a 500;
  \<open>partial_endpoint\<close> reports A and C deleted and B not; \<open>refusing_endpoint\<close> answers 200
  with \<open>success\<close> false. \<open>identity_only_sheet\<close> has one row, which holds the identity 100
  and nothing else, and \<open>after_refused_deletion\<close> is the world one cycle later, when the
  endpoint has refused the deletion. \<open>constructor_sheet\<close> has one row, with \<open>constructor\<close>
  in its identity cell.
\<close>

definition blank_game :: game where
  "blank_game =
     \<lparr>date_and_time = [], category = [], stage = [], player_1 = [], player_2 = [],
      results = [], venue = [], hubdbRowId = [], sheetRow = 0\<rparr>"

definition tan_lee :: game where
  "tan_lee = blank_game\<lparr>date_and_time := ''9am'', player_1 := ''Tan'', player_2 := ''Lee''\<rparr>"

definition ong_lim :: game where
  "ong_lim = blank_game\<lparr>date_and_time := ''10am'', player_1 := ''Ong'', player_2 := ''Lim''\<rparr>"

definition plain :: "(string \<times> game) list \<Rightarrow> snapshot" where
  "plain props = \<lparr>own = props, proto = None\<rparr>"

definition blank_world :: world where
  "blank_world = \<lparr>cells = (\<lambda>r c. []), GAME_DATA = None, sent = []\<rparr>"

definition delete_change :: "string \<Rightarrow> nat \<Rightarrow> change" where
  "delete_change ident r =
     \<lparr>type = DELETED, uniqueId = ident, row = None, newData = None,
      oldData = Rec (blank_game\<lparr>hubdbRowId := ident, sheetRow := r\<rparr>),
      changedFields = [Marker ''DELETED'']\<rparr>"

definition bound_sheet :: grid where
  "bound_sheet =
     (\<lambda>r c. if r = 4
             then (if c = 1 then ''100'' else if c = 2 then ''9am'' else if c = 5 then ''Tan''
                   else if c = 6 then ''Lee'' else [])
             else [])"

definition bound_world :: world where
  "bound_world = \<lparr>cells = bound_sheet, GAME_DATA = None, sent = []\<rparr>"

definition provisioning_sheet :: grid where
  "provisioning_sheet =
     (\<lambda>r c. if r = 4
             then (if c = 1 then ''100'' else if c = 2 then ''9am'' else if c = 5 then ''Tan''
                   else if c = 6 then ''Lee'' else [])
             else if r = 5
             then (if c = 2 then ''10am'' else if c = 5 then ''Ong''
                   else if c = 6 then ''Lim'' else [])
             else [])"

definition provisioning_world :: world where
  "provisioning_world = \<lparr>cells = provisioning_sheet, GAME_DATA = None, sent = []\<rparr>"

definition orphan_sheet :: grid where
  "orphan_sheet =
     (\<lambda>r c. if r = 4
             then (if c = 2 then ''10am'' else if c = 5 then ''Ong''
                   else if c = 6 then ''Lim'' else [])
             else if r = 5 \<and> c = 1 then ''300''
             else [])"

definition coreless_sheet :: grid where
  "coreless_sheet =
     (\<lambda>r c. if r = 4
             then (if c = 1 then ''100'' else if c = 7 then ''6-4'' else [])
             else if r = 5
             then (if c = 2 then ''10am'' else if c = 5 then ''Ong''
                   else if c = 6 then ''Lim'' else [])
             else if r = 6 \<and> c = 1 then ''300''
             else [])"

definition constructor_sheet :: grid where
  "constructor_sheet =
     (\<lambda>r c. if r = 4
             then (if c = 1 then ''constructor'' else if c = 2 then ''9am''
                   else if c = 5 then ''Tan'' else if c = 6 then ''Lee'' else [])
             else [])"

definition failing_endpoint :: remote where
  "failing_endpoint log =
     (case last log of
        CREATE_HUBDB_ROW u d r \<Rightarrow>
          Response 200 ''created''
            (Inr \<lparr>success = True, resp_hubdbRowId = ''200'', message = [],
                  batch_results = None\<rparr>)
      | GameData ops \<Rightarrow> Response 500 ''unavailable'' (Inl ''not JSON'')
      | _ \<Rightarrow> Throws ''unexpected request'')"

definition partial_endpoint :: remote where
  "partial_endpoint log =
     Response 200 ''partial''
       (Inr \<lparr>success = True, resp_hubdbRowId = [], message = [],
             batch_results = Some [(''A'', ''success''), (''B'', ''failed''),
                                   (''C'', ''success'')]\<rparr>)"

definition refusing_endpoint :: remote where
  "refusing_endpoint log =
     Response 200 ''refused''
       (Inr \<lparr>success = False, resp_hubdbRowId = [], message = ''refused'',
             batch_results = None\<rparr>)"

definition identity_only_sheet :: grid where
  "identity_only_sheet = (\<lambda>r c. if r = 4 \<and> c = 1 then ''100'' else [])"

definition identity_only_world :: world where
  "identity_only_world = \<lparr>cells = identity_only_sheet, GAME_DATA = None, sent = []\<rparr>"

definition after_refused_deletion :: world where
  "after_refused_deletion = syncAllData refusing_endpoint 4 identity_only_world"

section \<open>Objects and loops\<close>

lemma set_object_keys: "set (object_keys obj) = fst ` set obj"
  by (auto simp: object_keys_def Let_def)

lemma distinct_object_keys: "is_object obj \<Longrightarrow> distinct (object_keys obj)"
  by (auto simp: object_keys_def Let_def is_object_def)

lemma foldl_push:
  assumes "\<And>acc x. f acc x = acc @ f [] x"
  shows "foldl f acc xs = acc @ concat (map (f []) xs)"
proof (induction xs arbitrary: acc)
  case Nil
  show ?case by simp
next
  case (Cons x xs)
  have "f acc x @ concat (map (f []) xs) = acc @ f [] x @ concat (map (f []) xs)"
    by (subst assms) simp
  then show ?case by (simp add: Cons.IH)
qed

lemma filter_concat_one:
  assumes "distinct ks" and "\<And>k'. k' \<in> set ks \<Longrightarrow> k' \<noteq> k \<Longrightarrow> filter P (g k') = []"
  shows "filter P (concat (map g ks)) = (if k \<in> set ks then filter P (g k) else [])"
  using assms by (induction ks) auto

lemma foldl_frame:
  assumes "\<And>w x. g (f w x) = g w"
  shows "g (foldl f w xs) = g w"
  by (induction xs arbitrary: w) (simp_all add: assms)

lemma in_object_keys: "k \<in> set (object_keys obj) \<longleftrightarrow> map_of obj k \<noteq> None"
  by (simp add: set_object_keys map_of_eq_None_iff)

lemma obj_get_own: "map_of (own obj) k = Some g \<Longrightarrow> obj_get obj k = Rec g"
  by (simp add: obj_get_def)

section \<open>Properties of the change detector\<close>

lemma detect_current_push:
  "detect_current cur st acc k = acc @ detect_current cur st [] k"
  by (simp add: detect_current_def Let_def split: js_value.splits)

lemma detect_stored_push:
  "detect_stored cur st acc k = acc @ detect_stored cur st [] k"
  by (cases "truthy_value (obj_get cur k)"; cases "obj_get st k")
     (simp_all add: detect_stored_def)

lemma detectChanges_concat:
  "detectChanges cur st =
     concat (map (detect_current cur st []) (object_keys (own cur)))
     @ concat (map (detect_stored cur st []) (object_keys (own st)))"
  unfolding detectChanges_def
  by (subst foldl_push [of "detect_stored cur st", OF detect_stored_push],
      subst foldl_push [of "detect_current cur st", OF detect_current_push]) simp

lemma detect_current_other:
  "k' \<noteq> k \<Longrightarrow> filter (\<lambda>c. uniqueId c = k) (detect_current cur st [] k') = []"
  by (simp add: detect_current_def Let_def split: js_value.splits)

lemma detect_stored_other:
  "k' \<noteq> k \<Longrightarrow> filter (\<lambda>c. uniqueId c = k) (detect_stored cur st [] k') = []"
  by (cases "truthy_value (obj_get cur k')"; cases "obj_get st k'")
     (simp_all add: detect_stored_def)

lemma detect_current_self:
  "filter (\<lambda>c. uniqueId c = k) (detect_current cur st [] k) = detect_current cur st [] k"
  by (simp add: detect_current_def Let_def split: js_value.splits)

lemma detect_stored_self:
  "filter (\<lambda>c. uniqueId c = k) (detect_stored cur st [] k) = detect_stored cur st [] k"
  by (cases "truthy_value (obj_get cur k)"; cases "obj_get st k")
     (simp_all add: detect_stored_def)

lemma changes_for_key:
  assumes "is_object (own cur)" and "is_object (own st)"
  shows "filter (\<lambda>c. uniqueId c = k) (detectChanges cur st) =
           (if map_of (own cur) k \<noteq> None then detect_current cur st [] k else [])
           @ (if map_of (own st) k \<noteq> None then detect_stored cur st [] k else [])"
proof -
  have a: "filter (\<lambda>c. uniqueId c = k)
             (concat (map (detect_current cur st []) (object_keys (own cur))))
             = (if map_of (own cur) k \<noteq> None then detect_current cur st [] k else [])"
    using filter_concat_one [of "object_keys (own cur)" k "\<lambda>c. uniqueId c = k"
        "detect_current cur st []"]
      distinct_object_keys [OF assms(1)] detect_current_other [of _ k cur st]
    by (simp add: in_object_keys detect_current_self)
  have b: "filter (\<lambda>c. uniqueId c = k)
             (concat (map (detect_stored cur st []) (object_keys (own st))))
             = (if map_of (own st) k \<noteq> None then detect_stored cur st [] k else [])"
    using filter_concat_one [of "object_keys (own st)" k "\<lambda>c. uniqueId c = k"
        "detect_stored cur st []"]
      distinct_object_keys [OF assms(2)] detect_stored_other [of _ k cur st]
    by (simp add: in_object_keys detect_stored_self)
  show ?thesis by (simp add: detectChanges_concat a b)
qed

lemma check_field_foldl:
  "foldl (check_field current stored) acc fs =
     acc @ map (\<lambda>f. FieldChange f (js_read stored f) (js_read current f))
             (filter (\<lambda>f. js_read current f \<noteq> js_read stored f) fs)"
  by (induction fs arbitrary: acc) (simp_all add: check_field_def)

lemma tracked_changes:
  "map (\<lambda>f. FieldChange f (js_read (Rec stored) f) (js_read (Rec current) f))
     (filter (\<lambda>f. js_read (Rec current) f \<noteq> js_read (Rec stored) f) fieldsToCheck) =
     (if date_and_time current \<noteq> date_and_time stored
      then [FieldChange ''date_and_time'' (Text (date_and_time stored))
              (Text (date_and_time current))] else [])
     @ (if category current \<noteq> category stored
        then [FieldChange ''category'' (Text (category stored)) (Text (category current))]
        else [])
     @ (if stage current \<noteq> stage stored
        then [FieldChange ''stage'' (Text (stage stored)) (Text (stage current))] else [])
     @ (if player_1 current \<noteq> player_1 stored
        then [FieldChange ''player_1'' (Text (player_1 stored)) (Text (player_1 current))]
        else [])
     @ (if player_2 current \<noteq> player_2 stored
        then [FieldChange ''player_2'' (Text (player_2 stored)) (Text (player_2 current))]
        else [])
     @ (if results current \<noteq> results stored
        then [FieldChange ''results'' (Text (results stored)) (Text (results current))]
        else [])
     @ (if venue current \<noteq> venue stored
        then [FieldChange ''venue'' (Text (venue stored)) (Text (venue current))] else [])"
  by (simp add: fieldsToCheck_def js_read_def record_read_def)

text \<open>
  Claim C4. Take a uniqueId that is a key of both snapshots. If none of the seven tracked
  fields \<open>date_and_time\<close>, \<open>category\<close>, \<open>stage\<close>, \<open>player_1\<close>, \<open>player_2\<close>, \<open>results\<close>,
  \<open>venue\<close> differs between the current and the baseline record, the detector emits no
  change for it. If at least one differs, it emits exactly one change for it, an UPDATED
  one, carrying both records; its \<open>changedFields\<close> has one entry for each field that
  differs and none for a field that does not, in the order above, each entry with the
  field's name, the baseline record's value as \<open>oldValue\<close> and the current record's value
  as \<open>newValue\<close>.
\<close>

theorem detectChanges_updated:
  assumes "is_object (own currentData)" and "is_object (own storedData)"
    and "map_of (own currentData) k = Some current"
    and "map_of (own storedData) k = Some stored"
  shows "filter (\<lambda>c. uniqueId c = k) (detectChanges currentData storedData) =
     (if date_and_time current \<noteq> date_and_time stored \<or> category current \<noteq> category stored
         \<or> stage current \<noteq> stage stored \<or> player_1 current \<noteq> player_1 stored
         \<or> player_2 current \<noteq> player_2 stored \<or> results current \<noteq> results stored
         \<or> venue current \<noteq> venue stored
      then [\<lparr>type = UPDATED, uniqueId = k, row = Some (sheetRow current),
             newData = Some current, oldData = Rec stored,
             changedFields =
               (if date_and_time current \<noteq> date_and_time stored
                then [FieldChange ''date_and_time'' (Text (date_and_time stored))
                        (Text (date_and_time current))] else [])
               @ (if category current \<noteq> category stored
                  then [FieldChange ''category'' (Text (category stored))
                          (Text (category current))] else [])
               @ (if stage current \<noteq> stage stored
                  then [FieldChange ''stage'' (Text (stage stored)) (Text (stage current))]
                  else [])
               @ (if player_1 current \<noteq> player_1 stored
                  then [FieldChange ''player_1'' (Text (player_1 stored))
                          (Text (player_1 current))] else [])
               @ (if player_2 current \<noteq> player_2 stored
                  then [FieldChange ''player_2'' (Text (player_2 stored))
                          (Text (player_2 current))] else [])
               @ (if results current \<noteq> results stored
                  then [FieldChange ''results'' (Text (results stored))
                          (Text (results current))] else [])
               @ (if venue current \<noteq> venue stored
                  then [FieldChange ''venue'' (Text (venue stored)) (Text (venue current))]
                  else [])\<rparr>]
      else [])"
proof -
  have c: "obj_get currentData k = Rec current" and s: "obj_get storedData k = Rec stored"
    using assms(3,4) by (simp_all add: obj_get_own)
  have d: "detect_stored currentData storedData [] k = []"
    by (simp add: detect_stored_def c truthy_value_def)
  have u: "detect_current currentData storedData [] k =
             (if foldl (check_field (Rec current) (Rec stored)) [] fieldsToCheck \<noteq> []
              then [\<lparr>type = UPDATED, uniqueId = k, row = Some (sheetRow current),
                     newData = Some current, oldData = Rec stored,
                     changedFields =
                       foldl (check_field (Rec current) (Rec stored)) [] fieldsToCheck\<rparr>]
              else [])"
    by (simp add: detect_current_def c s truthy_value_def Let_def)
  have f: "foldl (check_field (Rec current) (Rec stored)) [] fieldsToCheck =
             map (\<lambda>f. FieldChange f (js_read (Rec stored) f) (js_read (Rec current) f))
               (filter (\<lambda>f. js_read (Rec current) f \<noteq> js_read (Rec stored) f) fieldsToCheck)"
    by (simp add: check_field_foldl)
  show ?thesis
    unfolding changes_for_key [OF assms(1,2)] d u f tracked_changes
    using assms(3,4) by auto
qed

text \<open>
  The example of record 7: \<open>results\<close> goes from \<open>6-4\<close> to the empty string.
\<close>

theorem detectChanges_updated_witness:
  "filter (\<lambda>c. uniqueId c = ''7'')
     (detectChanges
        (plain [(''7'', blank_game\<lparr>player_1 := ''Tan'', player_2 := ''Lee'',
                                   hubdbRowId := ''7'', sheetRow := 4\<rparr>)])
        (plain [(''7'', blank_game\<lparr>player_1 := ''Tan'', player_2 := ''Lee'',
                                   results := ''6-4'', hubdbRowId := ''7'', sheetRow := 4\<rparr>)]))
     = [\<lparr>type = UPDATED, uniqueId = ''7'', row = Some 4,
         newData = Some (blank_game\<lparr>player_1 := ''Tan'', player_2 := ''Lee'',
                                     hubdbRowId := ''7'', sheetRow := 4\<rparr>),
         oldData = Rec (blank_game\<lparr>player_1 := ''Tan'', player_2 := ''Lee'',
                                    results := ''6-4'', hubdbRowId := ''7'', sheetRow := 4\<rparr>),
         changedFields = [FieldChange ''results'' (Text ''6-4'') (Text [])]\<rparr>]"
proof -
  let ?c = "blank_game\<lparr>player_1 := ''Tan'', player_2 := ''Lee'',
                                        hubdbRowId := ''7'', sheetRow := 4\<rparr>"
  let ?s = "blank_game\<lparr>player_1 := ''Tan'', player_2 := ''Lee'', results := ''6-4'',
                            hubdbRowId := ''7'', sheetRow := 4\<rparr>"
  have o1: "is_object (own (plain [(''7'', ?c)]))" and o2: "is_object (own (plain [(''7'', ?s)]))"
    by (simp_all add: is_object_def plain_def)
  have m1: "map_of (own (plain [(''7'', ?c)])) ''7'' = Some ?c"
    and m2: "map_of (own (plain [(''7'', ?s)])) ''7'' = Some ?s"
    by (simp_all add: plain_def)
  from detectChanges_updated [OF o1 o2 m1 m2] show ?thesis
    by (simp add: blank_game_def)
qed

text \<open>
  Take a current snapshot whose keys are, as the extractor assigns them, the record's
  remote identity or a \<open>temp_\<close> placeholder. A uniqueId that is a key of current, and for
  which the baseline object answers \<open>undefined\<close>, has exactly one change, the NEW one. A
  uniqueId that is a key of baseline, and for which the current object answers
  \<open>undefined\<close>, has exactly one change, the DELETED one, when its baseline record carries a
  remote identity, and no change at all when it carries none.
\<close>

lemma changes_for_unshadowed_key:
  assumes "is_object (own currentData)" and "is_object (own storedData)"
    and "\<forall>(k, d) \<in> set (own currentData). truthy (hubdbRowId d) \<or> startsWith k ''temp_''"
  shows "(map_of (own currentData) k = Some current \<and> obj_get storedData k = Undefined \<longrightarrow>
            filter (\<lambda>c. uniqueId c = k) (detectChanges currentData storedData) =
              [\<lparr>type = NEW, uniqueId = k, row = Some (sheetRow current),
                newData = Some current, oldData = Undefined,
                changedFields = [Marker ''ALL'']\<rparr>])
       \<and> (obj_get currentData k = Undefined \<and> map_of (own storedData) k = Some stored
              \<and> truthy (hubdbRowId stored) \<longrightarrow>
            filter (\<lambda>c. uniqueId c = k) (detectChanges currentData storedData) =
              [\<lparr>type = DELETED, uniqueId = k, row = None,
                newData = None, oldData = Rec stored, changedFields = [Marker ''DELETED'']\<rparr>])
       \<and> (obj_get currentData k = Undefined \<and> map_of (own storedData) k = Some stored
              \<and> \<not> truthy (hubdbRowId stored) \<longrightarrow>
            filter (\<lambda>c. uniqueId c = k) (detectChanges currentData storedData) = [])"
proof (intro conjI impI)
  assume h: "map_of (own currentData) k = Some current \<and> obj_get storedData k = Undefined"
  then have "(k, current) \<in> set (own currentData)" by (auto dest: map_of_SomeD)
  with assms(3) have i: "truthy (hubdbRowId current) \<or> startsWith k ''temp_''" by auto
  from h have n: "map_of (own storedData) k = None"
    by (cases "map_of (own storedData) k") (simp_all add: obj_get_def)
  from h i n show "filter (\<lambda>c. uniqueId c = k) (detectChanges currentData storedData) =
              [\<lparr>type = NEW, uniqueId = k, row = Some (sheetRow current),
                newData = Some current, oldData = Undefined,
                changedFields = [Marker ''ALL'']\<rparr>]"
    by (simp add: changes_for_key [OF assms(1,2)] detect_current_def obj_get_own
        truthy_value_def)
next
  assume h: "obj_get currentData k = Undefined \<and> map_of (own storedData) k = Some stored
              \<and> truthy (hubdbRowId stored)"
  then have n: "map_of (own currentData) k = None"
    by (cases "map_of (own currentData) k") (simp_all add: obj_get_def)
  from h n show "filter (\<lambda>c. uniqueId c = k) (detectChanges currentData storedData) =
              [\<lparr>type = DELETED, uniqueId = k, row = None,
                newData = None, oldData = Rec stored, changedFields = [Marker ''DELETED'']\<rparr>]"
    by (simp add: changes_for_key [OF assms(1,2)] detect_stored_def obj_get_own
        truthy_value_def)
next
  assume h: "obj_get currentData k = Undefined \<and> map_of (own storedData) k = Some stored
              \<and> \<not> truthy (hubdbRowId stored)"
  then have n: "map_of (own currentData) k = None"
    by (cases "map_of (own currentData) k") (simp_all add: obj_get_def)
  from h n show "filter (\<lambda>c. uniqueId c = k) (detectChanges currentData storedData) = []"
    by (simp add: changes_for_key [OF assms(1,2)] detect_stored_def obj_get_own
        truthy_value_def)
qed

text \<open>
  Claim C3 at the inputs where it fails. The detector decides that a uniqueId is absent
  from a snapshot by the truthiness of \<open>storedData[uniqueId]\<close> and of
  \<open>currentData[uniqueId]\<close>, and a plain object answers a name of \<open>Object.prototype\<close> with
  the inherited member. A row with \<open>constructor\<close> in its identity cell is extracted under
  that key. The empty baseline has no such key, and yet the detector emits no NEW change
  for it: it takes the branch of an existing record and emits one UPDATED change, whose
  \<open>oldData\<close> is the inherited function and whose seven old values are \<open>undefined\<close>. A
  baseline record under the key \<open>toString\<close>, bound to a remote identity, is absent from
  the empty current snapshot, and yet no DELETED change is emitted for it.
\<close>

theorem inherited_names_are_misclassified:
  "getAllSheetData constructor_sheet 4 =
     Inr (plain [(''constructor'', tan_lee\<lparr>hubdbRowId := ''constructor'', sheetRow := 4\<rparr>)], [])
   \<and> detectChanges
       (plain [(''constructor'', tan_lee\<lparr>hubdbRowId := ''constructor'', sheetRow := 4\<rparr>)])
       (plain [])
     = [\<lparr>type = UPDATED, uniqueId = ''constructor'', row = Some 4,
         newData = Some (tan_lee\<lparr>hubdbRowId := ''constructor'', sheetRow := 4\<rparr>),
         oldData = Member ''constructor'',
         changedFields =
           [FieldChange ''date_and_time'' Undefined (Text ''9am''),
            FieldChange ''category'' Undefined (Text []),
            FieldChange ''stage'' Undefined (Text []),
            FieldChange ''player_1'' Undefined (Text ''Tan''),
            FieldChange ''player_2'' Undefined (Text ''Lee''),
            FieldChange ''results'' Undefined (Text []),
            FieldChange ''venue'' Undefined (Text [])]\<rparr>]
   \<and> detectChanges (plain [])
       (plain [(''toString'', ong_lim\<lparr>hubdbRowId := ''toString'', sheetRow := 5\<rparr>)])
     = []"
  by code_simp

lemma detect_current_cong:
  assumes "obj_get c' = obj_get c" and "obj_get s' = obj_get s"
  shows "detect_current c' s' = detect_current c s"
  by (intro ext) (simp add: detect_current_def assms cong: js_value.case_cong)

lemma detect_stored_cong:
  assumes "obj_get c' = obj_get c" and "obj_get s' = obj_get s"
  shows "detect_stored c' s' = detect_stored c s"
  by (intro ext) (simp only: detect_stored_def assms)

text \<open>
  Claim C9. \<open>detectChanges\<close> reads its two arguments and nothing else, and writes neither
  of them. Its result is determined by the two snapshots as objects: by what a property
  read gives for each name and by the order in which \<open>Object.keys\<close> lists the uniqueIds. So a
  second run on the same two snapshots, be they the very same objects or objects rebuilt
  with the same properties, returns the same list: the same changes, in the same order,
  with the same contents.
\<close>

theorem detectChanges_same_snapshots:
  assumes "obj_get currentData' = obj_get currentData"
    and "object_keys (own currentData') = object_keys (own currentData)"
    and "obj_get storedData' = obj_get storedData"
    and "object_keys (own storedData') = object_keys (own storedData)"
  shows "detectChanges currentData' storedData' = detectChanges currentData storedData"
  unfolding detectChanges_def
  by (simp only: assms(2,4) detect_current_cong [OF assms(1,3)]
      detect_stored_cong [OF assms(1,3)])

text \<open>
  An instance: the same current snapshot built in two insertion orders; 3 and 7 are array
  indices, so \<open>Object.keys\<close> lists 3 before 7 in both.
\<close>

theorem detectChanges_same_snapshots_witness:
  "detectChanges (plain [(''7'', tan_lee\<lparr>hubdbRowId := ''7'', sheetRow := 5\<rparr>),
                         (''3'', ong_lim\<lparr>hubdbRowId := ''3'', sheetRow := 4\<rparr>)]) (plain [])
   = detectChanges (plain [(''3'', ong_lim\<lparr>hubdbRowId := ''3'', sheetRow := 4\<rparr>),
                           (''7'', tan_lee\<lparr>hubdbRowId := ''7'', sheetRow := 5\<rparr>)]) (plain [])"
proof -
  have m: "obj_get (plain [(''7'', tan_lee\<lparr>hubdbRowId := ''7'', sheetRow := 5\<rparr>),
                           (''3'', ong_lim\<lparr>hubdbRowId := ''3'', sheetRow := 4\<rparr>)])
         = obj_get (plain [(''3'', ong_lim\<lparr>hubdbRowId := ''3'', sheetRow := 4\<rparr>),
                           (''7'', tan_lee\<lparr>hubdbRowId := ''7'', sheetRow := 5\<rparr>)])"
    by (rule ext) (simp add: obj_get_def plain_def)
  have k: "object_keys (own (plain [(''7'', tan_lee\<lparr>hubdbRowId := ''7'', sheetRow := 5\<rparr>),
                        (''3'', ong_lim\<lparr>hubdbRowId := ''3'', sheetRow := 4\<rparr>)]))
         = object_keys (own (plain [(''3'', ong_lim\<lparr>hubdbRowId := ''3'', sheetRow := 4\<rparr>),
                        (''7'', tan_lee\<lparr>hubdbRowId := ''7'', sheetRow := 5\<rparr>)]))"
    by code_simp
  from detectChanges_same_snapshots [OF m k refl refl] show ?thesis .
qed

section \<open>Properties of the selection for provisioning\<close>

lemma set_add_changed:
  "set (foldl add_changed acc cs) =
     set acc \<union> {uniqueId c | c. c \<in> set cs \<and> (type c = NEW \<or> type c = UPDATED)}"
  by (induction cs arbitrary: acc) (auto simp: add_changed_def set_add_def)

lemma distinct_add_changed:
  "distinct acc \<Longrightarrow> distinct (foldl add_changed acc cs)"
  by (induction cs arbitrary: acc) (auto simp: add_changed_def set_add_def)

lemma set_set_add: "set (foldl set_add acc ks) = set acc \<union> set ks"
  by (induction ks arbitrary: acc) (auto simp: set_add_def)

lemma distinct_set_add: "distinct acc \<Longrightarrow> distinct (foldl set_add acc ks)"
  by (induction ks arbitrary: acc) (auto simp: set_add_def)

lemma check_creation_push:
  "check_creation allData acc k = acc @ check_creation allData [] k"
  by (simp add: check_creation_def Let_def split: js_value.splits)

lemma check_creation_foldl:
  "foldl (check_creation allData) [] ids = concat (map (check_creation allData []) ids)"
  using foldl_push [of "check_creation allData" "[]" ids, OF check_creation_push] by simp

lemma check_creation_one:
  "check_creation allData [] k =
     (case obj_get allData k of
        Rec data \<Rightarrow>
          if needs_creation data
          then [\<lparr>info_uniqueId = k, info_data = data, info_sheetRow = sheetRow data\<rparr>]
          else []
      | _ \<Rightarrow> [])"
  by (auto simp: check_creation_def needs_creation_def Let_def split: js_value.splits)

lemma set_creation:
  "set (concat (map (check_creation allData []) ids)) =
     {\<lparr>info_uniqueId = k, info_data = data, info_sheetRow = sheetRow data\<rparr> | k data.
        k \<in> set ids \<and> obj_get allData k = Rec data \<and> needs_creation data}"
  by (auto simp: check_creation_one split: js_value.splits if_splits)

lemma ids_creation:
  "map info_uniqueId (concat (map (check_creation allData []) ids)) =
     filter (\<lambda>k. \<exists>data. obj_get allData k = Rec data \<and> needs_creation data) ids"
  by (induction ids) (auto simp: check_creation_one split: js_value.splits)

text \<open>
  Claim C8. The rows selected for creation are exactly the records of the current snapshot
  whose uniqueId is that of a NEW or UPDATED change when there are changes, or any record
  of the snapshot when there are none, and which have no remote identity and have
  \<open>date_and_time\<close>, \<open>player_1\<close> and \<open>player_2\<close>. Each is selected once, with its record and
  its sheet row.
\<close>

theorem findRowsNeedingHubDBCreation_selects:
  "set (findRowsNeedingHubDBCreation allData changes) =
     {\<lparr>info_uniqueId = k, info_data = data, info_sheetRow = sheetRow data\<rparr> | k data.
        k \<in> creation_targets allData changes \<and> obj_get allData k = Rec data
        \<and> \<not> truthy (hubdbRowId data) \<and> truthy (date_and_time data)
        \<and> truthy (player_1 data) \<and> truthy (player_2 data)}
   \<and> distinct (map info_uniqueId (findRowsNeedingHubDBCreation allData changes))"
proof -
  define ids where "ids =
    (if length changes > 0 then foldl add_changed [] changes
     else foldl set_add [] (object_keys (own allData)))"
  have f: "findRowsNeedingHubDBCreation allData changes
             = concat (map (check_creation allData []) ids)"
    by (simp add: findRowsNeedingHubDBCreation_def check_creation_foldl ids_def)
  have s: "set ids = creation_targets allData changes"
    by (simp add: ids_def creation_targets_def set_add_changed set_set_add set_object_keys)
  have d: "distinct ids"
    by (simp add: ids_def distinct_add_changed distinct_set_add)
  show ?thesis
    unfolding f set_creation ids_creation s
    using d by (simp add: needs_creation_def)
qed

text \<open>
  An instance with no change: the record without identity is selected, the bound one is not.
\<close>

theorem findRowsNeedingHubDBCreation_selects_witness:
  "\<lparr>info_uniqueId = ''temp_5'', info_data = ong_lim\<lparr>sheetRow := 5\<rparr>, info_sheetRow = 5\<rparr>
     \<in> set (findRowsNeedingHubDBCreation
              (plain [(''100'', tan_lee\<lparr>hubdbRowId := ''100'', sheetRow := 4\<rparr>),
                      (''temp_5'', ong_lim\<lparr>sheetRow := 5\<rparr>)]) [])
   \<and> \<lparr>info_uniqueId = ''100'', info_data = tan_lee\<lparr>hubdbRowId := ''100'', sheetRow := 4\<rparr>,
        info_sheetRow = 4\<rparr>
     \<notin> set (findRowsNeedingHubDBCreation
              (plain [(''100'', tan_lee\<lparr>hubdbRowId := ''100'', sheetRow := 4\<rparr>),
                      (''temp_5'', ong_lim\<lparr>sheetRow := 5\<rparr>)]) [])"
  using findRowsNeedingHubDBCreation_selects
          [of "plain [(''100'', tan_lee\<lparr>hubdbRowId := ''100'', sheetRow := 4\<rparr>),
                      (''temp_5'', ong_lim\<lparr>sheetRow := 5\<rparr>)]" "[]"]
  by (simp add: creation_targets_def truthy_def ong_lim_def tan_lee_def blank_game_def
      plain_def obj_get_def)

section \<open>Properties of the record extractor\<close>

lemma extract_row_cases:
  "extract_row sheet acc i =
     (let r = DATA_START_ROW + i
      in if row_cleared sheet r
         then (fst acc, snd acc @ [\<lparr>cleared_sheetRow = r,
                                     cleared_hubdbRowId = or_else (sheet r 1) []\<rparr>])
         else if row_kept sheet r
         then (obj_set (row_key sheet r) (row_record sheet r) (fst acc), snd acc)
         else acc)"
  by (auto simp: extract_row_def row_cleared_def row_kept_def row_record_def row_key_def
      Let_def)

lemma set_update_subset: "set (AList.update k v al) \<subseteq> insert (k, v) (set al)"
  by (induction al) auto

lemma own_obj_set_subset: "set (own (obj_set k v obj)) \<subseteq> insert (k, v) (set (own obj))"
  using set_update_subset [of k v "own obj"] by (auto simp: obj_set_def)

lemma proto_obj_set: "proto (obj_set k v obj) = Some d \<Longrightarrow> d = v \<or> proto obj = Some d"
  by (auto simp: obj_set_def split: if_splits)

lemma is_object_obj_set: "is_object (own obj) \<Longrightarrow> is_object (own (obj_set k v obj))"
  by (simp add: obj_set_def is_object_def distinct_update)

lemma extract_snapshot_member:
  assumes "(k, d) \<in> set (own (fst (foldl (extract_row sheet) acc idxs)))"
  shows "(k, d) \<in> set (own (fst acc))
         \<or> (\<exists>i \<in> set idxs. row_kept sheet (DATA_START_ROW + i)
                \<and> d = row_record sheet (DATA_START_ROW + i)
                \<and> k = row_key sheet (DATA_START_ROW + i))"
  using assms
proof (induction idxs arbitrary: acc)
  case Nil
  then show ?case by simp
next
  case (Cons i idxs)
  from Cons.prems
  have "(k, d) \<in> set (own (fst (foldl (extract_row sheet) (extract_row sheet acc i) idxs)))"
    by simp
  from Cons.IH [OF this] show ?case
  proof
    assume m: "(k, d) \<in> set (own (fst (extract_row sheet acc i)))"
    show ?thesis
    proof (cases "row_cleared sheet (DATA_START_ROW + i)")
      case True
      with m show ?thesis by (simp add: extract_row_cases Let_def)
    next
      case False
      show ?thesis
      proof (cases "row_kept sheet (DATA_START_ROW + i)")
        case True
        with False m have "(k, d) \<in> set (own (obj_set (row_key sheet (DATA_START_ROW + i))
                               (row_record sheet (DATA_START_ROW + i)) (fst acc)))"
          by (simp add: extract_row_cases Let_def)
        with own_obj_set_subset have "(k, d) = (row_key sheet (DATA_START_ROW + i),
                               row_record sheet (DATA_START_ROW + i)) \<or> (k, d) \<in> set (own (fst acc))"
          by fastforce
        with True show ?thesis by auto
      next
        case k: False
        with False m show ?thesis by (simp add: extract_row_cases Let_def)
      qed
    qed
  next
    assume "\<exists>i \<in> set idxs. row_kept sheet (DATA_START_ROW + i)
                \<and> d = row_record sheet (DATA_START_ROW + i)
                \<and> k = row_key sheet (DATA_START_ROW + i)"
    then show ?thesis by auto
  qed
qed

lemma extract_snapshot_proto:
  assumes "proto (fst (foldl (extract_row sheet) acc idxs)) = Some d"
  shows "proto (fst acc) = Some d
         \<or> (\<exists>i \<in> set idxs. row_kept sheet (DATA_START_ROW + i)
                \<and> d = row_record sheet (DATA_START_ROW + i))"
  using assms
proof (induction idxs arbitrary: acc)
  case Nil
  then show ?case by simp
next
  case (Cons i idxs)
  from Cons.prems
  have "proto (fst (foldl (extract_row sheet) (extract_row sheet acc i) idxs)) = Some d"
    by simp
  from Cons.IH [OF this] show ?case
  proof
    assume m: "proto (fst (extract_row sheet acc i)) = Some d"
    show ?thesis
    proof (cases "row_cleared sheet (DATA_START_ROW + i)")
      case True
      with m show ?thesis by (simp add: extract_row_cases Let_def)
    next
      case False
      show ?thesis
      proof (cases "row_kept sheet (DATA_START_ROW + i)")
        case True
        with False m have "proto (obj_set (row_key sheet (DATA_START_ROW + i))
                               (row_record sheet (DATA_START_ROW + i)) (fst acc)) = Some d"
          by (simp add: extract_row_cases Let_def)
        from proto_obj_set [OF this] True show ?thesis by auto
      next
        case k: False
        with False m show ?thesis by (simp add: extract_row_cases Let_def)
      qed
    qed
  next
    assume "\<exists>i \<in> set idxs. row_kept sheet (DATA_START_ROW + i)
                \<and> d = row_record sheet (DATA_START_ROW + i)"
    then show ?thesis by auto
  qed
qed

lemma extract_is_object:
  "is_object (own (fst acc)) \<Longrightarrow> is_object (own (fst (foldl (extract_row sheet) acc idxs)))"
proof (induction idxs arbitrary: acc)
  case Nil
  then show ?case by simp
next
  case (Cons i idxs)
  have "is_object (own (fst (extract_row sheet acc i)))"
    using Cons.prems
    by (simp add: extract_row_cases Let_def is_object_obj_set)
  from Cons.IH [OF this] show ?case by simp
qed

lemma extract_cleared:
  "snd (foldl (extract_row sheet) acc idxs) = snd acc @ concat (map (cleared_entry sheet) idxs)"
  by (induction idxs arbitrary: acc) (simp_all add: extract_row_cases cleared_entry_def Let_def)

lemma cleared_for_row:
  assumes "DATA_START_ROW \<le> r" and "r \<le> lastRow"
  shows "filter (\<lambda>c. cleared_sheetRow c = r)
           (concat (map (cleared_entry sheet) [0 ..< lastRow - DATA_START_ROW + 1]))
         = (if row_cleared sheet r
            then [\<lparr>cleared_sheetRow = r, cleared_hubdbRowId = or_else (sheet r 1) []\<rparr>]
            else [])"
proof -
  have other: "\<And>i. i \<noteq> r - DATA_START_ROW \<Longrightarrow>
                 filter (\<lambda>c. cleared_sheetRow c = r) (cleared_entry sheet i) = []"
    using assms(1) by (auto simp: cleared_entry_def Let_def)
  have mem: "r - DATA_START_ROW \<in> set [0 ..< lastRow - DATA_START_ROW + 1]"
    using assms by auto
  have self: "filter (\<lambda>c. cleared_sheetRow c = r) (cleared_entry sheet (r - DATA_START_ROW))
                = (if row_cleared sheet r
                   then [\<lparr>cleared_sheetRow = r, cleared_hubdbRowId = or_else (sheet r 1) []\<rparr>]
                   else [])"
    using assms(1) by (simp add: cleared_entry_def Let_def)
  show ?thesis
    using filter_concat_one [of "[0 ..< lastRow - DATA_START_ROW + 1]" "r - DATA_START_ROW"
        "\<lambda>c. cleared_sheetRow c = r" "cleared_entry sheet"] other mem self
    by simp
qed

lemma getAllSheetData_Inr:
  assumes "getAllSheetData sheet lastRow = Inr (allData, clearedRows)"
  shows "DATA_START_ROW \<le> lastRow"
    and "allData = fst (foldl (extract_row sheet) (\<lparr>own = [], proto = None\<rparr>, [])
                          [0 ..< lastRow - DATA_START_ROW + 1])"
    and "clearedRows = concat (map (cleared_entry sheet) [0 ..< lastRow - DATA_START_ROW + 1])"
proof -
  show a: "DATA_START_ROW \<le> lastRow"
    using assms by (auto simp: getAllSheetData_def split: if_splits)
  from assms a
  have e: "foldl (extract_row sheet) (\<lparr>own = [], proto = None\<rparr>, [])
             [0 ..< lastRow - DATA_START_ROW + 1] = (allData, clearedRows)"
    by (simp add: getAllSheetData_def)
  then show "allData = fst (foldl (extract_row sheet) (\<lparr>own = [], proto = None\<rparr>, [])
                              [0 ..< lastRow - DATA_START_ROW + 1])"
    by simp
  have "snd (foldl (extract_row sheet) (\<lparr>own = [], proto = None\<rparr>, []) idxs)
          = concat (map (cleared_entry sheet) idxs)"
    for idxs
    using extract_cleared [of sheet "(\<lparr>own = [], proto = None\<rparr>, [])" idxs] by simp
  with e show "clearedRows = concat (map (cleared_entry sheet) [0 ..< lastRow - DATA_START_ROW + 1])"
    by (metis snd_conv)
qed

lemma getAllSheetData_member:
  assumes "getAllSheetData sheet lastRow = Inr (allData, clearedRows)"
    and "(k, d) \<in> set (own allData)"
  shows "row_kept sheet (sheetRow d) \<and> d = row_record sheet (sheetRow d)
         \<and> k = row_key sheet (sheetRow d)
         \<and> DATA_START_ROW \<le> sheetRow d \<and> sheetRow d \<le> lastRow"
proof -
  from assms(2)
  have "(k, d) \<in> set (own (fst (foldl (extract_row sheet) (\<lparr>own = [], proto = None\<rparr>, [])
                                     [0 ..< lastRow - DATA_START_ROW + 1])))"
    unfolding getAllSheetData_Inr(2) [OF assms(1)] .
  from extract_snapshot_member [OF this]
  obtain i where i: "i \<in> set [0 ..< lastRow - DATA_START_ROW + 1]"
      "row_kept sheet (DATA_START_ROW + i)"
      "d = row_record sheet (DATA_START_ROW + i)" "k = row_key sheet (DATA_START_ROW + i)"
    by fastforce
  from i(3) have s: "sheetRow d = DATA_START_ROW + i" by (simp add: row_record_def)
  from i(1) getAllSheetData_Inr(1) [OF assms(1)] have "DATA_START_ROW + i \<le> lastRow" by auto
  with s i(2,3,4) show ?thesis by simp
qed

lemma getAllSheetData_proto:
  assumes "getAllSheetData sheet lastRow = Inr (allData, clearedRows)"
    and "proto allData = Some d"
  shows "row_kept sheet (sheetRow d) \<and> d = row_record sheet (sheetRow d)
         \<and> DATA_START_ROW \<le> sheetRow d \<and> sheetRow d \<le> lastRow"
proof -
  from assms(2)
  have "proto (fst (foldl (extract_row sheet) (\<lparr>own = [], proto = None\<rparr>, [])
                      [0 ..< lastRow - DATA_START_ROW + 1])) = Some d"
    unfolding getAllSheetData_Inr(2) [OF assms(1)] .
  from extract_snapshot_proto [OF this]
  obtain i where i: "i \<in> set [0 ..< lastRow - DATA_START_ROW + 1]"
      "row_kept sheet (DATA_START_ROW + i)"
      "d = row_record sheet (DATA_START_ROW + i)"
    by fastforce
  from i(3) have s: "sheetRow d = DATA_START_ROW + i" by (simp add: row_record_def)
  from i(1) getAllSheetData_Inr(1) [OF assms(1)] have "DATA_START_ROW + i \<le> lastRow" by auto
  with s i(2,3) show ?thesis by simp
qed

text \<open>
  Every snapshot the extractor returns is an object whose keys are remote identities or
  \<open>temp_\<close> placeholders.
\<close>

lemma getAllSheetData_snapshot:
  assumes "getAllSheetData sheet lastRow = Inr (allData, clearedRows)"
  shows "is_object (own allData)"
    and "\<forall>(k, d) \<in> set (own allData). truthy (hubdbRowId d) \<or> startsWith k ''temp_''"
proof -
  show "is_object (own allData)"
    unfolding getAllSheetData_Inr(2) [OF assms]
    by (rule extract_is_object) (simp add: is_object_def)
  show "\<forall>(k, d) \<in> set (own allData). truthy (hubdbRowId d) \<or> startsWith k ''temp_''"
  proof (clarify)
    fix k d
    assume m: "(k, d) \<in> set (own allData)" and n: "\<not> startsWith k ''temp_''"
    from getAllSheetData_member [OF assms m]
    have "d = row_record sheet (sheetRow d)" "k = row_key sheet (sheetRow d)" by auto
    then have "hubdbRowId d = or_else (sheet (sheetRow d) 1) []"
      and "k = or_else (or_else (sheet (sheetRow d) 1) []) (''temp_'' @ string_of_nat (sheetRow d))"
      by (simp_all add: row_record_def row_key_def) (metis game.select_convs(8))
    with n show "truthy (hubdbRowId d)"
      by (auto simp: or_else_def startsWith_def split: if_splits)
  qed
qed

lemma all_cells_empty:
  assumes "\<forall>j<11. \<not> truthy (sheet r (j + 2))"
  shows "row_cleared sheet r = truthy (sheet r 1)" and "\<not> row_kept sheet r"
proof -
  have c: "\<not> truthy (sheet r (j + 2))" if "j < 11" for j using assms that by simp
  show "row_cleared sheet r = truthy (sheet r 1)"
    unfolding row_cleared_def isDataClearedButHasId_def
    using c [of 0] c [of 1] c [of 2] c [of 3] c [of 4] c [of 5] c [of 6] c [of 7] c [of 8]
      c [of 9] c [of 10]
    by (simp add: or_else_def truthy_def)
  show "\<not> row_kept sheet r"
    unfolding row_kept_def Let_def
    using c [of 0] c [of 1] c [of 2] c [of 3] c [of 4]
    by simp
qed

lemma eval_orphan_sheet:
  "getAllSheetData orphan_sheet 6 =
     Inr (plain [(''temp_4'', ong_lim\<lparr>sheetRow := 4\<rparr>)],
          [\<lparr>cleared_sheetRow = 5, cleared_hubdbRowId = ''300''\<rparr>])"
  by code_simp

text \<open>
  What the extractor does with a row whose eleven data cells, columns 2 to 12, are all
  empty: no record of the snapshot comes from that row; the list of cleared rows has
  exactly one entry for it, with its identity, when it has one, and none otherwise.
\<close>

lemma cleared_rows_of_empty_rows:
  assumes "getAllSheetData sheet lastRow = Inr (allData, clearedRows)"
    and "DATA_START_ROW \<le> r" and "r \<le> lastRow"
    and "\<forall>j<11. \<not> truthy (sheet r (j + 2))"
  shows "(\<forall>(k, d) \<in> set (own allData). sheetRow d \<noteq> r)
       \<and> (\<forall>d. proto allData = Some d \<longrightarrow> sheetRow d \<noteq> r)
       \<and> filter (\<lambda>c. cleared_sheetRow c = r) clearedRows =
           (if truthy (sheet r 1)
            then [\<lparr>cleared_sheetRow = r, cleared_hubdbRowId = sheet r 1\<rparr>]
            else [])"
proof (intro conjI)
  show "\<forall>(k, d) \<in> set (own allData). sheetRow d \<noteq> r"
    using getAllSheetData_member [OF assms(1)] all_cells_empty(2) [of sheet r, OF assms(4)] by blast
  show "\<forall>d. proto allData = Some d \<longrightarrow> sheetRow d \<noteq> r"
    using getAllSheetData_proto [OF assms(1)] all_cells_empty(2) [of sheet r, OF assms(4)] by blast
  have "or_else (sheet r 1) [] = sheet r 1" by (simp add: or_else_def truthy_def)
  then show "filter (\<lambda>c. cleared_sheetRow c = r) clearedRows =
           (if truthy (sheet r 1)
            then [\<lparr>cleared_sheetRow = r, cleared_hubdbRowId = sheet r 1\<rparr>]
            else [])"
    unfolding getAllSheetData_Inr(3) [OF assms(1)] cleared_for_row [OF assms(2,3)]
    by (simp add: all_cells_empty(1) [of sheet r, OF assms(4)])
qed

text \<open>
  Claim C7 at the input where it fails. Row 4 holds the remote identity 100 and nothing
  else, so the extractor queues it as cleared, and the cycle asks the endpoint to delete
  100. The endpoint refuses, and the script records it on the row: \<open>error\<close> in column
  \<open>SYNC_STATUS_ID_COLUMN\<close>, the message in column \<open>SYNC_MESSAGE_ID_COLUMN\<close>. These are
  columns 9 and 10, inside the range of columns 2 to 12 that \<open>isDataClearedButHasId\<close>
  tests. The seven tracked cells of the row, columns 2 to 8, are still empty and the
  identity is still there, but the extractor now returns the row in neither the snapshot
  nor the list of cleared rows, and the next cycle sends no request: the deletion is never
  asked again.
\<close>

theorem refused_orphan_deletion_is_not_retried:
  "getAllSheetData identity_only_sheet 4
     = Inr (plain [], [\<lparr>cleared_sheetRow = 4, cleared_hubdbRowId = ''100''\<rparr>])
   \<and> sent after_refused_deletion = [DELETE_HUBDB_ROW ''100'' 4]
   \<and> cells after_refused_deletion 4 1 = ''100''
   \<and> cells after_refused_deletion 4 2 = [] \<and> cells after_refused_deletion 4 3 = []
   \<and> cells after_refused_deletion 4 4 = [] \<and> cells after_refused_deletion 4 5 = []
   \<and> cells after_refused_deletion 4 6 = [] \<and> cells after_refused_deletion 4 7 = []
   \<and> cells after_refused_deletion 4 8 = []
   \<and> cells after_refused_deletion 4 SYNC_STATUS_ID_COLUMN = ''error''
   \<and> cells after_refused_deletion 4 SYNC_MESSAGE_ID_COLUMN = ''Deletion failed: refused''
   \<and> getAllSheetData (cells after_refused_deletion) 4 = Inr (plain [], [])
   \<and> sent (syncAllData refusing_endpoint 4 after_refused_deletion)
       = sent after_refused_deletion"
  by code_simp

lemma eval_coreless_sheet:
  "getAllSheetData coreless_sheet 6 =
     Inr (plain [(''temp_5'', ong_lim\<lparr>sheetRow := 5\<rparr>)],
          [\<lparr>cleared_sheetRow = 6, cleared_hubdbRowId = ''300''\<rparr>])"
  by code_simp

text \<open>
  Claim C10. A row whose five core cells (date and time, category, stage, player 1,
  player 2) are empty, which has a remote identity and at least one of the six other data
  cells filled, gives no record to the snapshot, neither as a property nor as the
  prototype, and no entry to the list of cleared rows.
\<close>

theorem getAllSheetData_drops_coreless_rows:
  assumes "getAllSheetData sheet lastRow = Inr (allData, clearedRows)"
    and "DATA_START_ROW \<le> r" and "r \<le> lastRow"
    and "\<forall>j<5. \<not> truthy (sheet r (j + 2))"
    and "truthy (sheet r 1)"
    and "\<exists>j. 5 \<le> j \<and> j < 11 \<and> truthy (sheet r (j + 2))"
  shows "(\<forall>(k, d) \<in> set (own allData). sheetRow d \<noteq> r)
       \<and> (\<forall>d. proto allData = Some d \<longrightarrow> sheetRow d \<noteq> r)
       \<and> (\<forall>c \<in> set clearedRows. cleared_sheetRow c \<noteq> r)"
proof (intro conjI)
  have c: "\<not> truthy (sheet r (j + 2))" if "j < 5" for j using assms(4) that by simp
  have k: "\<not> row_kept sheet r"
    unfolding row_kept_def Let_def
    using c [of 0] c [of 1] c [of 2] c [of 3] c [of 4] by simp
  show "\<forall>(k, d) \<in> set (own allData). sheetRow d \<noteq> r"
    using getAllSheetData_member [OF assms(1)] k by blast
  show "\<forall>d. proto allData = Some d \<longrightarrow> sheetRow d \<noteq> r"
    using getAllSheetData_proto [OF assms(1)] k by blast
  from assms(6) obtain j where j: "5 \<le> j" "j < 11" "truthy (sheet r (j + 2))" by blast
  then have "j = 5 \<or> j = 6 \<or> j = 7 \<or> j = 8 \<or> j = 9 \<or> j = 10" by arith
  with j(3) have n: "\<not> row_cleared sheet r"
    unfolding row_cleared_def isDataClearedButHasId_def by auto
  have "filter (\<lambda>c. cleared_sheetRow c = r) clearedRows = []"
    unfolding getAllSheetData_Inr(3) [OF assms(1)] cleared_for_row [OF assms(2,3)]
    using n by simp
  then show "\<forall>c \<in> set clearedRows. cleared_sheetRow c \<noteq> r"
    by (simp add: filter_empty_conv)
qed

text \<open>
  An instance: row 4 has an identity and a result only, beside a kept row and a cleared row.
\<close>

theorem getAllSheetData_drops_coreless_rows_witness:
  "4 \<notin> sheetRow ` snd ` set (own (plain [(''temp_5'', ong_lim\<lparr>sheetRow := 5\<rparr>)]))
   \<and> 4 \<notin> sheetRow ` set_option (proto (plain [(''temp_5'', ong_lim\<lparr>sheetRow := 5\<rparr>)]))
   \<and> 4 \<notin> cleared_sheetRow ` set [\<lparr>cleared_sheetRow = 6, cleared_hubdbRowId = ''300''\<rparr>]"
proof -
  have r: "DATA_START_ROW \<le> 4" "(4::nat) \<le> 6" by (simp_all add: DATA_START_ROW_def)
  have e: "\<forall>j<5. \<not> truthy (coreless_sheet 4 (j + 2))"
    by (simp add: coreless_sheet_def truthy_def)
  have i: "truthy (coreless_sheet 4 1)" by (simp add: coreless_sheet_def truthy_def)
  have n: "\<exists>j. 5 \<le> j \<and> j < 11 \<and> truthy (coreless_sheet 4 (j + 2))"
    by (rule exI [of _ 5]) (simp add: coreless_sheet_def truthy_def)
  from getAllSheetData_drops_coreless_rows [OF eval_coreless_sheet r e i n]
  show ?thesis by (auto simp: plain_def)
qed

section \<open>What the status recorder and the handlers leave untouched\<close>

lemma setValue_simps [simp]:
  "GAME_DATA (setValue r c v w) = GAME_DATA w"
  "sent (setValue r c v w) = sent w"
  "cells (setValue r c v w) r' c' = (if r' = r \<and> c' = c then v else cells w r' c')"
  by (simp_all add: setValue_def)

lemma updateRowWithError_simps [simp]:
  "GAME_DATA (updateRowWithError r m w) = GAME_DATA w"
  "sent (updateRowWithError r m w) = sent w"
  by (simp_all add: updateRowWithError_def)

lemma updateRowAfterSuccessfulDelete_simps [simp]:
  "GAME_DATA (updateRowAfterSuccessfulDelete r w) = GAME_DATA w"
  "sent (updateRowAfterSuccessfulDelete r w) = sent w"
  by (simp_all add: updateRowAfterSuccessfulDelete_def)

lemma clearSyncStatusForRows_simps [simp]:
  "GAME_DATA (clearSyncStatusForRows rs w) = GAME_DATA w"
  "sent (clearSyncStatusForRows rs w) = sent w"
  unfolding clearSyncStatusForRows_def
  by (rule foldl_frame, simp)+

lemma updateSyncStatusForChanges_simps [simp]:
  "GAME_DATA (updateSyncStatusForChanges cs s w) = GAME_DATA w"
  "sent (updateSyncStatusForChanges cs s w) = sent w"
  unfolding updateSyncStatusForChanges_def
  by (rule foldl_frame, simp)+

lemma updateRowsAfterSuccess_simps [simp]:
  "GAME_DATA (updateRowsAfterSuccess cs w) = GAME_DATA w"
  "sent (updateRowsAfterSuccess cs w) = sent w"
  unfolding updateRowsAfterSuccess_def
  by (rule foldl_frame, simp)+

lemma updateRowsAfterFailure_simps [simp]:
  "GAME_DATA (updateRowsAfterFailure cs c t w) = GAME_DATA w"
  "sent (updateRowsAfterFailure cs c t w) = sent w"
  unfolding updateRowsAfterFailure_def
  by (rule foldl_frame, simp)+

lemma mark_deletes_error_simps [simp]:
  "GAME_DATA (mark_deletes_error cs m w) = GAME_DATA w"
  "sent (mark_deletes_error cs m w) = sent w"
  unfolding mark_deletes_error_def
  by (rule foldl_frame, simp)+

lemma handleBatchDeleteSuccess_simps [simp]:
  "GAME_DATA (handleBatchDeleteSuccess cs d w) = GAME_DATA w"
  "sent (handleBatchDeleteSuccess cs d w) = sent w"
  unfolding handleBatchDeleteSuccess_def
  by (simp_all add: foldl_frame)

lemma column_distinct [simp]:
  "SYNC_STATUS_ID_COLUMN \<noteq> SYNC_MESSAGE_ID_COLUMN"
  "SYNC_MESSAGE_ID_COLUMN \<noteq> SYNC_STATUS_ID_COLUMN"
  "HUBDB_ROW_ID_COLUMN \<noteq> SYNC_MESSAGE_ID_COLUMN"
  "HUBDB_ROW_ID_COLUMN \<noteq> SYNC_STATUS_ID_COLUMN"
  "SYNC_STATUS_ID_COLUMN \<noteq> HUBDB_ROW_ID_COLUMN"
  "SYNC_MESSAGE_ID_COLUMN \<noteq> HUBDB_ROW_ID_COLUMN"
  by (simp_all add: SYNC_STATUS_ID_COLUMN_def SYNC_MESSAGE_ID_COLUMN_def HUBDB_ROW_ID_COLUMN_def)

lemma cells_updateRowWithError [simp]:
  "cells (updateRowWithError r m w) r' c' =
     (if r' = r \<and> c' = SYNC_MESSAGE_ID_COLUMN then m
      else if r' = r \<and> c' = SYNC_STATUS_ID_COLUMN then ''error''
      else cells w r' c')"
  by (simp add: updateRowWithError_def)

lemma cells_updateRowAfterSuccessfulDelete [simp]:
  "cells (updateRowAfterSuccessfulDelete r w) r' c' =
     (if r' = r \<and> c' = SYNC_MESSAGE_ID_COLUMN then ''Successfully deleted from HubDB''
      else if r' = r \<and> c' = SYNC_STATUS_ID_COLUMN then ''deleted''
      else if r' = r \<and> c' = HUBDB_ROW_ID_COLUMN then []
      else cells w r' c')"
  by (simp add: updateRowAfterSuccessfulDelete_def)

lemma cells_updateSyncStatus_id:
  "cells (updateSyncStatusForChanges cs s w) r HUBDB_ROW_ID_COLUMN = cells w r HUBDB_ROW_ID_COLUMN"
  unfolding updateSyncStatusForChanges_def
  by (rule foldl_frame [where g = "\<lambda>w. cells w r HUBDB_ROW_ID_COLUMN"]) simp

lemma combined_sent_frame [simp]:
  "combined_sent (setValue r c v w) = combined_sent w"
  "combined_sent (updateRowWithError r m w) = combined_sent w"
  "combined_sent (updateRowAfterSuccessfulDelete r w) = combined_sent w"
  "combined_sent (clearSyncStatusForRows rs w) = combined_sent w"
  "combined_sent (updateSyncStatusForChanges cs s w) = combined_sent w"
  "combined_sent (mark_deletes_error cs m w) = combined_sent w"
  "combined_sent (handleBatchDeleteSuccess cs d w) = combined_sent w"
  by (simp_all add: combined_sent_def)

lemma handleSingleClearedRow_frame [simp]:
  "GAME_DATA (handleSingleClearedRow endpoint cr w) = GAME_DATA w"
  "combined_sent (handleSingleClearedRow endpoint cr w) = combined_sent w"
  by (simp_all add: handleSingleClearedRow_def fetch_def Let_def combined_sent_def is_combined_def
      split: fetch_result.splits sum.splits)

lemma cleared_fallback_frame [simp]:
  "GAME_DATA (cleared_fallback endpoint crs m w) = GAME_DATA w"
  "combined_sent (cleared_fallback endpoint crs m w) = combined_sent w"
  by (simp_all add: cleared_fallback_def foldl_frame)

lemma handleBatchClearedRows_frame [simp]:
  "GAME_DATA (handleBatchClearedRows endpoint crs w) = GAME_DATA w"
  "combined_sent (handleBatchClearedRows endpoint crs w) = combined_sent w"
proof -
  define w1 where "w1 = foldl (\<lambda>w clearedRow.
                             setValue (cleared_sheetRow clearedRow) SYNC_STATUS_ID_COLUMN
                               ''syncing'' w) w crs"
  have g1: "GAME_DATA w1 = GAME_DATA w" unfolding w1_def by (rule foldl_frame) simp
  have c1: "combined_sent w1 = combined_sent w" unfolding w1_def by (rule foldl_frame) simp
  define req where "req = BATCH_DELETE_HUBDB_ROWS (filter truthy (map cleared_hubdbRowId crs))
                            ''rows_cleared'' (length crs)"
  define w2 where "w2 = w1\<lparr>sent := sent w1 @ [req]\<rparr>"
  have g2: "GAME_DATA w2 = GAME_DATA w" by (simp add: w2_def g1)
  have c2: "combined_sent w2 = combined_sent w"
    using c1 by (simp add: w2_def combined_sent_def req_def is_combined_def)
  show "GAME_DATA (handleBatchClearedRows endpoint crs w) = GAME_DATA w"
    by (simp add: handleBatchClearedRows_def fetch_def Let_def w1_def [symmetric]
        req_def [symmetric] w2_def [symmetric] g2 foldl_frame
        split: fetch_result.splits sum.splits)
  show "combined_sent (handleBatchClearedRows endpoint crs w) = combined_sent w"
    by (simp add: handleBatchClearedRows_def fetch_def Let_def w1_def [symmetric]
        req_def [symmetric] w2_def [symmetric] c2 foldl_frame
        split: fetch_result.splits sum.splits)
qed

lemma handleClearedRows_frame [simp]:
  "GAME_DATA (handleClearedRows endpoint crs w) = GAME_DATA w"
  "combined_sent (handleClearedRows endpoint crs w) = combined_sent w"
  by (simp_all add: handleClearedRows_def Let_def)

lemma processBatchDeletes_frame [simp]:
  "GAME_DATA (snd (processBatchDeletes endpoint ds os w)) = GAME_DATA w"
  "combined_sent (snd (processBatchDeletes endpoint ds os w)) = combined_sent w"
  by (simp_all add: processBatchDeletes_def fetch_def Let_def handleBatchDeleteError_def
      handleBatchDeleteFailure_def combined_sent_def is_combined_def
      split: fetch_result.splits sum.splits)

section \<open>Properties of the dispatcher\<close>

lemma processIndividualOperations_sent:
  "sent (snd (processIndividualOperations endpoint cs w))
     = sent w @ [GameData (map individual_op cs)]"
  by (simp add: processIndividualOperations_def fetch_def Let_def
      split: fetch_result.splits sum.splits)

lemma processIndividualOperations_GAME_DATA:
  "GAME_DATA (snd (processIndividualOperations endpoint cs w)) = GAME_DATA w"
  by (simp add: processIndividualOperations_def fetch_def Let_def
      split: fetch_result.splits sum.splits)

text \<open>
  Claim C6. When the dispatched list has exactly one DELETED change, \<open>sendToHubSpot\<close>
  sends one request only, the combined one, and no batch delete; the combined request
  carries the other changes followed by the delete.
\<close>

theorem single_delete_goes_individual:
  assumes "length (filter (\<lambda>c. type c = DELETED) changes) = 1"
  shows "sent (snd (sendToHubSpot endpoint changes w)) =
           sent w @ [GameData (map individual_op
                                 (filter (\<lambda>c. type c \<noteq> DELETED) changes
                                    @ filter (\<lambda>c. type c = DELETED) changes))]"
proof -
  from assms have ne: "filter (\<lambda>c. type c = DELETED) changes \<noteq> []" by auto
  show ?thesis
    using assms ne
    by (simp add: sendToHubSpot_def Let_def processIndividualOperations_sent)
qed

text \<open>
  An instance: one delete alone.
\<close>

theorem single_delete_goes_individual_witness:
  "sent (snd (sendToHubSpot refusing_endpoint [delete_change ''A'' 4] blank_world)) =
     [GameData [GameOp DELETED ''A'' None
                  (Rec (blank_game\<lparr>hubdbRowId := ''A'', sheetRow := 4\<rparr>))
                  [Marker ''DELETED''] (Some 4)]]"
proof -
  have h: "length (filter (\<lambda>c. type c = DELETED) [delete_change ''A'' 4]) = 1"
    by (simp add: delete_change_def)
  from single_delete_goes_individual [OF h, of refusing_endpoint blank_world] show ?thesis
    by (simp add: delete_change_def blank_world_def individual_op_def truthy_row_def
        old_sheetRow_def)
qed

text \<open>
  Claim C5. A batch delete of three changes whose old records sit on three different rows
  is answered 2xx with \<open>success\<close> true, the results naming the first and the third
  identity as succeeded and not the second. Then the rows of the first and the third have
  their identity cell emptied and the status \<open>deleted\<close>, the row of the second has the
  status \<open>error\<close> and keeps its identity cell, \<open>otherChanges\<close> is returned as it was, and the
  batch request is the only request sent.
\<close>

theorem batch_delete_partial_success:
  assumes "oldData dA = Rec oA" and "oldData dB = Rec oB" and "oldData dC = Rec oC"
    and "sheetRow oA \<noteq> 0" and "sheetRow oB \<noteq> 0" and "sheetRow oC \<noteq> 0"
    and "distinct [sheetRow oA, sheetRow oB, sheetRow oC]"
    and "endpoint (sent w @ [BATCH_DELETE_HUBDB_ROWS (delete_ids [dA, dB, dC])
                               ''data_changes'' 3])
           = Response responseCode responseText (Inr responseData)"
    and "is_2xx responseCode" and "success responseData"
    and "wasDeleted responseData (hubdbRowId oA)"
    and "\<not> wasDeleted responseData (hubdbRowId oB)"
    and "wasDeleted responseData (hubdbRowId oC)"
  shows "cells (snd (processBatchDeletes endpoint [dA, dB, dC] otherChanges w))
           (sheetRow oA) HUBDB_ROW_ID_COLUMN = []
       \<and> cells (snd (processBatchDeletes endpoint [dA, dB, dC] otherChanges w))
           (sheetRow oA) SYNC_STATUS_ID_COLUMN = ''deleted''
       \<and> cells (snd (processBatchDeletes endpoint [dA, dB, dC] otherChanges w))
           (sheetRow oC) HUBDB_ROW_ID_COLUMN = []
       \<and> cells (snd (processBatchDeletes endpoint [dA, dB, dC] otherChanges w))
           (sheetRow oC) SYNC_STATUS_ID_COLUMN = ''deleted''
       \<and> cells (snd (processBatchDeletes endpoint [dA, dB, dC] otherChanges w))
           (sheetRow oB) SYNC_STATUS_ID_COLUMN = ''error''
       \<and> cells (snd (processBatchDeletes endpoint [dA, dB, dC] otherChanges w))
           (sheetRow oB) HUBDB_ROW_ID_COLUMN = cells w (sheetRow oB) HUBDB_ROW_ID_COLUMN
       \<and> fst (processBatchDeletes endpoint [dA, dB, dC] otherChanges w) = otherChanges
       \<and> sent (snd (processBatchDeletes endpoint [dA, dB, dC] otherChanges w))
           = sent w @ [BATCH_DELETE_HUBDB_ROWS (delete_ids [dA, dB, dC]) ''data_changes'' 3]"
proof -
  define w1 where "w1 = updateSyncStatusForChanges [dA, dB, dC] ''syncing'' w"
  define w2 where "w2 = w1\<lparr>sent := sent w1 @ [BATCH_DELETE_HUBDB_ROWS (delete_ids [dA, dB, dC])
                               ''data_changes'' 3]\<rparr>"
  have s1: "sent w1 = sent w" by (simp add: w1_def)
  have p: "processBatchDeletes endpoint [dA, dB, dC] otherChanges w
             = (otherChanges, handleBatchDeleteSuccess [dA, dB, dC] responseData w2)"
    using assms(8,9) s1
    by (simp add: processBatchDeletes_def fetch_def Let_def w1_def [symmetric] w2_def
        numeral_3_eq_3)
  have c2: "cells w2 r HUBDB_ROW_ID_COLUMN = cells w r HUBDB_ROW_ID_COLUMN" for r
    by (simp add: w2_def w1_def cells_updateSyncStatus_id)
  have s2: "sent w2 = sent w @ [BATCH_DELETE_HUBDB_ROWS (delete_ids [dA, dB, dC])
                               ''data_changes'' 3]"
    by (simp add: w2_def s1)
  show ?thesis
    unfolding p
    using assms(1-7,10-13) c2 s2
    by (simp add: handleBatchDeleteSuccess_def old_sheetRow_def old_hubdbRowId_def truthy_row_def)
qed

text \<open>
  An instance: identities A, B, C on rows 4, 5, 6.
\<close>

theorem batch_delete_partial_success_witness:
  "cells (snd (processBatchDeletes partial_endpoint
                 [delete_change ''A'' 4, delete_change ''B'' 5, delete_change ''C'' 6] []
                 blank_world)) 4 HUBDB_ROW_ID_COLUMN = []
   \<and> cells (snd (processBatchDeletes partial_endpoint
                 [delete_change ''A'' 4, delete_change ''B'' 5, delete_change ''C'' 6] []
                 blank_world)) 4 SYNC_STATUS_ID_COLUMN = ''deleted''
   \<and> cells (snd (processBatchDeletes partial_endpoint
                 [delete_change ''A'' 4, delete_change ''B'' 5, delete_change ''C'' 6] []
                 blank_world)) 6 SYNC_STATUS_ID_COLUMN = ''deleted''
   \<and> cells (snd (processBatchDeletes partial_endpoint
                 [delete_change ''A'' 4, delete_change ''B'' 5, delete_change ''C'' 6] []
                 blank_world)) 5 SYNC_STATUS_ID_COLUMN = ''error''
   \<and> fst (processBatchDeletes partial_endpoint
                 [delete_change ''A'' 4, delete_change ''B'' 5, delete_change ''C'' 6] []
                 blank_world) = []
   \<and> sent (snd (processBatchDeletes partial_endpoint
                 [delete_change ''A'' 4, delete_change ''B'' 5, delete_change ''C'' 6] []
                 blank_world))
       = [BATCH_DELETE_HUBDB_ROWS [''A'', ''B'', ''C''] ''data_changes'' 3]"
proof -
  let ?r = "\<lparr>success = True, resp_hubdbRowId = [], message = [],
             batch_results = Some [(''A'', ''success''), (''B'', ''failed''),
                                   (''C'', ''success'')]\<rparr>"
  let ?oA = "blank_game\<lparr>hubdbRowId := ''A'', sheetRow := 4\<rparr>"
  let ?oB = "blank_game\<lparr>hubdbRowId := ''B'', sheetRow := 5\<rparr>"
  let ?oC = "blank_game\<lparr>hubdbRowId := ''C'', sheetRow := 6\<rparr>"
  have o: "oldData (delete_change ''A'' 4) = Rec ?oA" "oldData (delete_change ''B'' 5) = Rec ?oB"
    "oldData (delete_change ''C'' 6) = Rec ?oC"
    by (simp_all add: delete_change_def)
  have r: "sheetRow ?oA \<noteq> 0" "sheetRow ?oB \<noteq> 0" "sheetRow ?oC \<noteq> 0"
    "distinct [sheetRow ?oA, sheetRow ?oB, sheetRow ?oC]"
    by simp_all
  have e: "partial_endpoint (sent blank_world @ [BATCH_DELETE_HUBDB_ROWS
             (delete_ids [delete_change ''A'' 4, delete_change ''B'' 5, delete_change ''C'' 6])
             ''data_changes'' 3]) = Response 200 ''partial'' (Inr ?r)"
    by (simp add: partial_endpoint_def)
  have c: "is_2xx 200" "success ?r" by (simp_all add: is_2xx_def)
  have d: "wasDeleted ?r (hubdbRowId ?oA)" "\<not> wasDeleted ?r (hubdbRowId ?oB)"
    "wasDeleted ?r (hubdbRowId ?oC)"
    by (simp_all add: wasDeleted_def successfulDeletions_def)
  from batch_delete_partial_success
         [where dA = "delete_change ''A'' 4" and dB = "delete_change ''B'' 5"
            and dC = "delete_change ''C'' 6" and oA = ?oA and oB = ?oB and oC = ?oC
            and endpoint = partial_endpoint and w = blank_world and responseCode = 200
            and responseText = "''partial''" and responseData = ?r and otherChanges = "[]",
          OF o r e c d]
  show ?thesis
    by (simp add: delete_ids_def delete_change_def blank_world_def truthy_def blank_game_def)
qed

text \<open>
  Claim C2 at the input where it fails. Two DELETED changes are dispatched and the batch
  delete is answered 200 with \<open>success\<close> false. Both rows get the status \<open>error\<close>, but the
  deletes are not moved into \<open>otherChanges\<close>: the batch request is the only request sent,
  no combined request follows, and \<open>sendToHubSpot\<close> returns normally. The two other failure
  handlers and the batch path of the cleared rows do fall back.
\<close>

theorem batch_refusal_is_not_retried:
  "sent (snd (sendToHubSpot refusing_endpoint [delete_change ''A'' 4, delete_change ''B'' 5]
                blank_world))
     = [BATCH_DELETE_HUBDB_ROWS [''A'', ''B''] ''data_changes'' 2]
   \<and> fst (sendToHubSpot refusing_endpoint [delete_change ''A'' 4, delete_change ''B'' 5]
            blank_world) = Inr ()
   \<and> cells (snd (sendToHubSpot refusing_endpoint [delete_change ''A'' 4, delete_change ''B'' 5]
                   blank_world)) 4 SYNC_STATUS_ID_COLUMN = ''error''
   \<and> cells (snd (sendToHubSpot refusing_endpoint [delete_change ''A'' 4, delete_change ''B'' 5]
                   blank_world)) 5 SYNC_STATUS_ID_COLUMN = ''error''"
  by code_simp

lemma processIndividualOperations_fails:
  assumes "request_fails (endpoint (sent (snd (processIndividualOperations endpoint cs w))))"
  shows "\<exists>e. fst (processIndividualOperations endpoint cs w) = Inl e"
proof -
  from assms have "request_fails (endpoint (sent w @ [GameData (map individual_op cs)]))"
    by (simp add: processIndividualOperations_sent)
  then show ?thesis
    by (auto simp: processIndividualOperations_def fetch_def Let_def request_fails_def
        split: fetch_result.splits sum.splits)
qed

lemma sendToHubSpot_alt:
  "sendToHubSpot endpoint cs w =
     (let rowsToProcess = map (\<lambda>c. the (row c)) (filter (\<lambda>c. truthy_row (row c)) cs);
          w1 = (if length rowsToProcess > 0 then clearSyncStatusForRows rowsToProcess w else w);
          ds = filter (\<lambda>c. type c = DELETED) cs;
          os = filter (\<lambda>c. type c \<noteq> DELETED) cs;
          p = (if length ds > 1 then processBatchDeletes endpoint ds os w1
               else if length ds = 1 then (os @ ds, w1) else (os, w1))
      in if length (fst p) > 0 then processIndividualOperations endpoint (fst p) (snd p)
         else (Inr (), snd p))"
  by (simp add: sendToHubSpot_def Let_def split: prod.splits)

lemma sendToHubSpot_GAME_DATA [simp]:
  "GAME_DATA (snd (sendToHubSpot endpoint cs w)) = GAME_DATA w"
  unfolding sendToHubSpot_alt Let_def
  by (simp add: processIndividualOperations_GAME_DATA)

lemma sendToHubSpot_fails:
  assumes "request_fails (endpoint (sent (snd (sendToHubSpot endpoint cs w))))"
  shows "(\<exists>e. fst (sendToHubSpot endpoint cs w) = Inl e)
         \<or> combined_sent (snd (sendToHubSpot endpoint cs w)) = combined_sent w"
proof -
  define w1 where "w1 = (if length (map (\<lambda>c. the (row c)) (filter (\<lambda>c. truthy_row (row c)) cs)) > 0
         then clearSyncStatusForRows (map (\<lambda>c. the (row c)) (filter (\<lambda>c. truthy_row (row c)) cs)) w
         else w)"
  define ds where "ds = filter (\<lambda>c. type c = DELETED) cs"
  define os where "os = filter (\<lambda>c. type c \<noteq> DELETED) cs"
  define p where "p = (if length ds > 1 then processBatchDeletes endpoint ds os w1
              else if length ds = 1 then (os @ ds, w1) else (os, w1))"
  have c1: "combined_sent w1 = combined_sent w" by (simp add: w1_def)
  have cp: "combined_sent (snd p) = combined_sent w" by (simp add: p_def c1)
  have s: "sendToHubSpot endpoint cs w =
             (if length (fst p) > 0 then processIndividualOperations endpoint (fst p) (snd p)
              else (Inr (), snd p))"
    unfolding sendToHubSpot_alt Let_def p_def w1_def ds_def os_def by (rule refl)
  show ?thesis
  proof (cases "length (fst p) > 0")
    case True
    with assms s have f: "request_fails (endpoint (sent (snd (processIndividualOperations endpoint
                         (fst p) (snd p)))))"
      by simp
    from processIndividualOperations_fails [of endpoint "fst p" "snd p", OF f] True s
    show ?thesis by simp
  next
    case False
    with s cp show ?thesis by simp
  qed
qed

section \<open>Properties of the cycle\<close>

lemma dispatch_changes_alt:
  "dispatch_changes endpoint allData changes rowsNeeding w =
     (if length changes > 0
      then (let cw = filter hasHubDBId changes;
                p = (if length cw > 0 then sendToHubSpot endpoint cw w else (Inr (), w))
            in case fst p of
                 Inl e \<Rightarrow> snd p
               | Inr u \<Rightarrow> if length rowsNeeding = 0 then storeData allData (snd p) else snd p)
      else w)"
  by (auto simp: dispatch_changes_def Let_def split: prod.splits sum.splits)

lemma failing_endpoint_fails:
  "\<forall>log ops. request_fails (failing_endpoint (log @ [GameData ops]))"
  by (simp add: failing_endpoint_def request_fails_def is_2xx_def)

lemma eval_bound_sheet:
  "getAllSheetData (cells bound_world) 4
     = Inr (plain [(''100'', tan_lee\<lparr>hubdbRowId := ''100'', sheetRow := 4\<rparr>)], [])"
  by code_simp

text \<open>
  Claim C1, as amended. Take a cycle that selects no record for provisioning and that
  sends a combined request, which is then the last request it sends. If the endpoint's
  answer to it is a failure (a response that is not 2xx, or an exception of \<open>fetch\<close>),
  the property \<open>GAME_DATA\<close> after the cycle is what it was before: the next cycle
  compares against the same baseline.
\<close>

theorem failed_dispatch_keeps_baseline:
  assumes "getAllSheetData (cells w) lastRow = Inr (allData, clearedRows)"
    and "findRowsNeedingHubDBCreation allData (detectChanges allData (getStoredData w)) = []"
    and "combined_sent (syncAllData endpoint lastRow w) \<noteq> combined_sent w"
    and "request_fails (endpoint (sent (syncAllData endpoint lastRow w)))"
  shows "GAME_DATA (syncAllData endpoint lastRow w) = GAME_DATA w"
proof -
  define w1 where "w1 = (if length clearedRows > 0 then handleClearedRows endpoint clearedRows w
                    else w)"
  have g1: "GAME_DATA w1 = GAME_DATA w" and c1: "combined_sent w1 = combined_sent w"
    by (simp_all add: w1_def)
  from g1 have st: "getStoredData w1 = getStoredData w" by (simp add: getStoredData_def)
  define changes where "changes = detectChanges allData (getStoredData w)"
  have s: "syncAllData endpoint lastRow w = dispatch_changes endpoint allData changes [] w1"
    unfolding syncAllData_def assms(1) sum.case prod.case Let_def w1_def [symmetric] st
      assms(2) changes_def
    by simp
  define cw where "cw = filter hasHubDBId changes"
  show ?thesis
  proof (cases "length changes > 0 \<and> length cw > 0")
    case False
    then have "combined_sent (dispatch_changes endpoint allData changes [] w1) = combined_sent w1"
      by (auto simp: dispatch_changes_alt Let_def cw_def storeData_def combined_sent_def)
    with assms(3) s c1 show ?thesis by simp
  next
    case True
    then have "sent (dispatch_changes endpoint allData changes [] w1)
                 = sent (snd (sendToHubSpot endpoint cw w1))"
      by (simp add: dispatch_changes_alt Let_def cw_def [symmetric] storeData_def
          split: sum.splits)
    with assms(4) s have f: "request_fails (endpoint (sent (snd (sendToHubSpot endpoint cw w1))))"
      by simp
    from sendToHubSpot_fails [of endpoint cw w1, OF f]
    show ?thesis
    proof
      assume "\<exists>e. fst (sendToHubSpot endpoint cw w1) = Inl e"
      then obtain e where "fst (sendToHubSpot endpoint cw w1) = Inl e" by blast
      with True have "dispatch_changes endpoint allData changes [] w1
                        = snd (sendToHubSpot endpoint cw w1)"
        by (simp add: dispatch_changes_alt Let_def cw_def [symmetric])
      then show ?thesis by (simp add: s g1)
    next
      assume n: "combined_sent (snd (sendToHubSpot endpoint cw w1)) = combined_sent w1"
      from True have "combined_sent (dispatch_changes endpoint allData changes [] w1)
                        = combined_sent (snd (sendToHubSpot endpoint cw w1))"
        by (simp add: dispatch_changes_alt Let_def cw_def [symmetric] storeData_def
            combined_sent_def split: sum.splits)
      with n assms(3) s c1 show ?thesis by simp
    qed
  qed
qed

text \<open>
  An instance: one bound row, no baseline yet, so one NEW change and nothing to provision.
\<close>

theorem failed_dispatch_keeps_baseline_witness:
  "combined_sent (syncAllData failing_endpoint 4 bound_world) \<noteq> combined_sent bound_world
   \<and> request_fails (failing_endpoint (sent (syncAllData failing_endpoint 4 bound_world)))
   \<and> GAME_DATA (syncAllData failing_endpoint 4 bound_world) = GAME_DATA bound_world"
proof -
  have h2: "findRowsNeedingHubDBCreation
              (plain [(''100'', tan_lee\<lparr>hubdbRowId := ''100'', sheetRow := 4\<rparr>)])
              (detectChanges (plain [(''100'', tan_lee\<lparr>hubdbRowId := ''100'', sheetRow := 4\<rparr>)])
                 (getStoredData bound_world)) = []"
    by code_simp
  have h3: "combined_sent (syncAllData failing_endpoint 4 bound_world)
              \<noteq> combined_sent bound_world"
    by code_simp
  have h4: "request_fails (failing_endpoint (sent (syncAllData failing_endpoint 4 bound_world)))"
    by code_simp
  from failed_dispatch_keeps_baseline
         [of bound_world 4 "plain [(''100'', tan_lee\<lparr>hubdbRowId := ''100'', sheetRow := 4\<rparr>)]" "[]"
            failing_endpoint, OF eval_bound_sheet h2 h3 h4] h3 h4
  show ?thesis by simp
qed

text \<open>
  Claim C1 as stated fails when a record is selected for provisioning, because the cycle
  stores the refreshed snapshot right after \<open>createHubDBRows\<close>, before it dispatches. Row 4
  is bound to 100 and row 5 is not bound. The creation for row 5 succeeds, the combined
  request for the NEW change of 100 is answered 500, and \<open>GAME_DATA\<close> has gone from
  nothing to the refreshed snapshot. Against it, the next extraction yields no change, so
  the NEW change of 100 is not computed again.
\<close>

theorem provisioning_stores_baseline_counterexample:
  "request_fails (failing_endpoint (sent (syncAllData failing_endpoint 5 provisioning_world)))
   \<and> sent (syncAllData failing_endpoint 5 provisioning_world) =
       [CREATE_HUBDB_ROW ''temp_5'' (creation_data (ong_lim\<lparr>sheetRow := 5\<rparr>)) 5,
        GameData [GameOp NEW ''100'' (Some (tan_lee\<lparr>hubdbRowId := ''100'', sheetRow := 4\<rparr>))
                    Undefined [Marker ''ALL''] (Some 4)]]
   \<and> GAME_DATA provisioning_world = None
   \<and> GAME_DATA (syncAllData failing_endpoint 5 provisioning_world) =
       Some [(''100'', tan_lee\<lparr>hubdbRowId := ''100'', sheetRow := 4\<rparr>),
             (''200'', ong_lim\<lparr>hubdbRowId := ''200'', sheetRow := 5\<rparr>)]
   \<and> getAllSheetData (cells (syncAllData failing_endpoint 5 provisioning_world)) 5 =
       Inr (plain [(''100'', tan_lee\<lparr>hubdbRowId := ''100'', sheetRow := 4\<rparr>),
             (''200'', ong_lim\<lparr>hubdbRowId := ''200'', sheetRow := 5\<rparr>)], [])
   \<and> detectChanges (plain [(''100'', tan_lee\<lparr>hubdbRowId := ''100'', sheetRow := 4\<rparr>),
                     (''200'', ong_lim\<lparr>hubdbRowId := ''200'', sheetRow := 5\<rparr>)])
         (getStoredData (syncAllData failing_endpoint 5 provisioning_world)) = []"
  by code_simp

end
